theory Spec2Isabelle
  imports Complex_Main "HOL-Library.AList"
begin

section \<open>Values, exceptions and the request envelope\<close>

text \<open>
  The module \<^verbatim>\<open>disasyncoro3.py\<close> is dynamically typed Python.  Exceptions are
  values of \<open>py_exc\<close>; a computation that may raise returns \<open>py_exc + 'a\<close>.
\<close>

datatype py_exc =
    AttributeError | KeyError | TypeError | ValueError | AssertionError
  | UnicodeEncodeError | OSError | NameError

subsection \<open>\<^verbatim>\<open>_NetRequest\<close>: attribute slots and the pickling protocol\<close>

text \<open>
  An instance of a class with \<^verbatim>\<open>__slots__\<close> is a partial map from slot names to
  values: a slot that was never assigned is absent and reading it raises
  \<^verbatim>\<open>AttributeError\<close>; assigning a name that is not a slot raises it too.  The
  pickling protocol never inspects the values, so the value type is a parameter.
\<close>

type_synonym 'v pyobj = "string \<Rightarrow> 'v option"

definition NetRequest_slots :: "string list" where
  "NetRequest_slots =
     [''name'', ''kwargs'', ''src'', ''dst'', ''auth'', ''event'', ''id'', ''reply'', ''timeout'']"

definition getattr :: "'v pyobj \<Rightarrow> string \<Rightarrow> py_exc + 'v" where
  "getattr obj k = (case obj k of None \<Rightarrow> Inl AttributeError | Some v \<Rightarrow> Inr v)"

definition setattr :: "'v pyobj \<Rightarrow> string \<Rightarrow> 'v \<Rightarrow> py_exc + 'v pyobj" where
  "setattr obj k v =
     (if k \<in> set NetRequest_slots then Inr (obj(k \<mapsto> v)) else Inl AttributeError)"

text \<open>
  \<^verbatim>\<open>__init__(self, name, kwargs={}, src=None, dst=None, auth=None, timeout=None)\<close>:
  every slot is assigned; \<open>none\<close> is the value \<^verbatim>\<open>None\<close> of the value type.
\<close>

definition NetRequest_init ::
  "'v \<Rightarrow> 'v \<Rightarrow> 'v \<Rightarrow> 'v \<Rightarrow> 'v \<Rightarrow> 'v \<Rightarrow> 'v \<Rightarrow> 'v pyobj" where
  "NetRequest_init none name kwargs src dst auth timeout =
     [''name'' \<mapsto> name, ''kwargs'' \<mapsto> kwargs, ''src'' \<mapsto> src, ''dst'' \<mapsto> dst,
      ''auth'' \<mapsto> auth, ''id'' \<mapsto> none, ''event'' \<mapsto> none, ''reply'' \<mapsto> none,
      ''timeout'' \<mapsto> timeout]"

text \<open>The keys of the state dictionary, in the order \<^verbatim>\<open>__getstate__\<close> writes them.\<close>

definition state_keys :: "string list" where
  "state_keys = [''name'', ''kwargs'', ''src'', ''dst'', ''auth'', ''id'', ''reply'', ''timeout'']"

fun read_attrs :: "'v pyobj \<Rightarrow> string list \<Rightarrow> py_exc + (string \<times> 'v) list" where
  "read_attrs obj [] = Inr []"
| "read_attrs obj (k # ks) =
     (case getattr obj k of
        Inl e \<Rightarrow> Inl e
      | Inr v \<Rightarrow> (case read_attrs obj ks of Inl e \<Rightarrow> Inl e | Inr st \<Rightarrow> Inr ((k, v) # st)))"

definition getstate :: "'v pyobj \<Rightarrow> py_exc + (string \<times> 'v) list" where
  "getstate self = read_attrs self state_keys"

text \<open>\<^verbatim>\<open>for k, v in state.items(): setattr(self, k, v)\<close>\<close>

fun setstate :: "'v pyobj \<Rightarrow> (string \<times> 'v) list \<Rightarrow> py_exc + 'v pyobj" where
  "setstate self [] = Inr self"
| "setstate self ((k, v) # st) =
     (case setattr self k v of Inl e \<Rightarrow> Inl e | Inr self' \<Rightarrow> setstate self' st)"

text \<open>
  The serialiser is an external collaborator (pickle): \<open>dumps\<close> turns the state
  dictionary into bytes (of a wire type \<open>'w\<close>) and \<open>loads\<close> reads it back, or
  fails on bytes it does not understand.  Pickling an object writes its \<^verbatim>\<open>__getstate__\<close>; unpickling makes
  an object with every slot unassigned and calls \<^verbatim>\<open>__setstate__\<close> on it.
\<close>

definition serialize_req ::
  "((string \<times> 'v) list \<Rightarrow> 'w) \<Rightarrow> 'v pyobj \<Rightarrow> py_exc + 'w" where
  "serialize_req dumps req = (case getstate req of Inl e \<Rightarrow> Inl e | Inr st \<Rightarrow> Inr (dumps st))"

definition unserialize_req ::
  "('w \<Rightarrow> (string \<times> 'v) list option) \<Rightarrow> 'w \<Rightarrow> py_exc + 'v pyobj" where
  "unserialize_req loads msg =
     (case loads msg of None \<Rightarrow> Inl ValueError | Some st \<Rightarrow> setstate Map.empty st)"

section \<open>Paths and the file system\<close>

subsection \<open>\<^verbatim>\<open>str\<close> and \<^verbatim>\<open>os.path\<close> (posixpath)\<close>

text \<open>
  The receiver builds target paths with \<^verbatim>\<open>os.path.join\<close>, \<^verbatim>\<open>basename\<close>,
  \<^verbatim>\<open>dirname\<close> and \<^verbatim>\<open>abspath\<close> and tests containment with \<^verbatim>\<open>str.startswith\<close>.
  These are the functions of CPython's \<^verbatim>\<open>posixpath\<close>, on strings.
\<close>

definition startswith :: "string \<Rightarrow> string \<Rightarrow> bool" where
  "startswith s p = (take (length p) s = p)"

definition endswith :: "string \<Rightarrow> string \<Rightarrow> bool" where
  "endswith s p = (length p \<le> length s \<and> drop (length s - length p) s = p)"

text \<open>\<^verbatim>\<open>a > b\<close> on strings: lexicographic by code point.\<close>

fun str_less :: "string \<Rightarrow> string \<Rightarrow> bool" where
  "str_less [] [] = False"
| "str_less [] (y # ys) = True"
| "str_less (x # xs) [] = False"
| "str_less (x # xs) (y # ys) =
     ((of_char x :: nat) < of_char y \<or> (x = y \<and> str_less xs ys))"

text \<open>\<^verbatim>\<open>s.split('/')\<close>\<close>

fun split_sep :: "string \<Rightarrow> string list" where
  "split_sep [] = [[]]"
| "split_sep (c # cs) =
     (if c = CHR ''/'' then [] # split_sep cs
      else (case split_sep cs of [] \<Rightarrow> [[c]] | x # xs \<Rightarrow> (c # x) # xs))"

text \<open>\<^verbatim>\<open>'/'.join(comps)\<close>\<close>

fun join_sep :: "string list \<Rightarrow> string" where
  "join_sep [] = []"
| "join_sep [c] = c"
| "join_sep (c # cs) = c @ ''/'' @ join_sep cs"

text \<open>\<^verbatim>\<open>os.path.join(a, b)\<close>\<close>

definition posix_join :: "string \<Rightarrow> string \<Rightarrow> string" where
  "posix_join a b =
     (if startswith b ''/'' then b
      else if a = [] \<or> endswith a ''/'' then a @ b
      else a @ ''/'' @ b)"

text \<open>\<^verbatim>\<open>os.path.basename(p)\<close>: \<^verbatim>\<open>p[p.rfind('/') + 1:]\<close>\<close>

definition posix_basename :: "string \<Rightarrow> string" where
  "posix_basename p = rev (takeWhile (\<lambda>c. c \<noteq> CHR ''/'') (rev p))"

text \<open>
  \<^verbatim>\<open>os.path.dirname(p)\<close>: \<^verbatim>\<open>head = p[:p.rfind('/') + 1]\<close>, with its trailing
  slashes stripped unless it consists of slashes only.
\<close>

definition posix_dirname :: "string \<Rightarrow> string" where
  "posix_dirname p =
     (let rhead = dropWhile (\<lambda>c. c \<noteq> CHR ''/'') (rev p)
      in if rhead \<noteq> [] \<and> (\<exists>c \<in> set rhead. c \<noteq> CHR ''/'')
         then rev (dropWhile (\<lambda>c. c = CHR ''/'') rhead)
         else rev rhead)"

text \<open>
  \<^verbatim>\<open>os.path.normpath(path)\<close>: the loop over the components, then the leading
  slashes (one, or two when the path starts with exactly two).
\<close>

fun norm_comps :: "bool \<Rightarrow> string list \<Rightarrow> string list \<Rightarrow> string list" where
  "norm_comps rooted new_comps [] = new_comps"
| "norm_comps rooted new_comps (c # cs) =
     (if c = [] \<or> c = ''.'' then norm_comps rooted new_comps cs
      else if c \<noteq> ''..'' \<or> (\<not> rooted \<and> new_comps = [])
              \<or> (new_comps \<noteq> [] \<and> last new_comps = ''..'')
        then norm_comps rooted (new_comps @ [c]) cs
      else if new_comps \<noteq> [] then norm_comps rooted (butlast new_comps) cs
      else norm_comps rooted new_comps cs)"

definition initial_slashes :: "string \<Rightarrow> nat" where
  "initial_slashes path =
     (if startswith path ''/'' then
        (if startswith path ''//'' \<and> \<not> startswith path ''///'' then 2 else 1)
      else 0)"

definition posix_normpath :: "string \<Rightarrow> string" where
  "posix_normpath path =
     (if path = [] then ''.''
      else let n = initial_slashes path;
               p = replicate n CHR ''/'' @ join_sep (norm_comps (n \<noteq> 0) [] (split_sep path))
           in if p = [] then ''.'' else p)"

text \<open>\<^verbatim>\<open>os.path.abspath(path)\<close>, the current directory being a parameter.\<close>

definition posix_abspath :: "string \<Rightarrow> string \<Rightarrow> string" where
  "posix_abspath cwd path =
     posix_normpath (if startswith path ''/'' then path else posix_join cwd path)"

subsection \<open>The file system\<close>

text \<open>
  Timestamps are Python floats, that is IEEE 754 doubles.  \<open>Float m e\<close> is the double
  of value \<open>m * 2 ^ e\<close> (a double when \<open>\<bar>m\<bar> < 2 ^ 53\<close>, \<open>- 1074 \<le> e\<close> and the value is
  below \<open>2 ^ 1024\<close>); the infinities and NaN are values of their own.  The module
  makes one computation on them, \<^verbatim>\<open>abs(a - b) <= 1\<close>: the subtraction is the exact
  difference rounded to 53 bits, ties to the even mantissa, and to an infinity from
  \<open>2 ^ 1024\<close> on (a difference of two doubles is never below the subnormal grid, so
  nothing is lost at the small end); a comparison with NaN is false.
\<close>

datatype pyfloat = Float int int | PlusInf | MinusInf | NaN

fun bitlength :: "nat \<Rightarrow> nat" where
  "bitlength n = (if n = 0 then 0 else Suc (bitlength (n div 2)))"

declare bitlength.simps [simp del]

definition round_to_double :: "int \<Rightarrow> int \<Rightarrow> pyfloat" where
  "round_to_double m e =
     (let a = nat \<bar>m\<bar>;
          k = bitlength a - 53;
          q = a div 2 ^ k;
          r = a mod 2 ^ k;
          q' = (if k = 0 then a
                else if r > 2 ^ (k - 1) \<or> (r = 2 ^ (k - 1) \<and> odd q) then q + 1 else q)
      in if int (bitlength q') + e + int k > 1024 then (if m < 0 then MinusInf else PlusInf)
         else Float (if m < 0 then - int q' else int q') (e + int k))"

fun float_sub :: "pyfloat \<Rightarrow> pyfloat \<Rightarrow> pyfloat" where
  "float_sub (Float m1 e1) (Float m2 e2) =
     round_to_double (m1 * 2 ^ nat (e1 - min e1 e2) - m2 * 2 ^ nat (e2 - min e1 e2)) (min e1 e2)"
| "float_sub NaN y = NaN"
| "float_sub x NaN = NaN"
| "float_sub PlusInf PlusInf = NaN"
| "float_sub MinusInf MinusInf = NaN"
| "float_sub PlusInf y = PlusInf"
| "float_sub MinusInf y = MinusInf"
| "float_sub (Float m e) PlusInf = MinusInf"
| "float_sub (Float m e) MinusInf = PlusInf"

fun float_abs :: "pyfloat \<Rightarrow> pyfloat" where
  "float_abs (Float m e) = Float \<bar>m\<bar> e"
| "float_abs PlusInf = PlusInf"
| "float_abs MinusInf = PlusInf"
| "float_abs NaN = NaN"

text \<open>\<^verbatim>\<open>x <= 1\<close>, a float against the integer \<open>1\<close>\<close>

fun float_le_one :: "pyfloat \<Rightarrow> bool" where
  "float_le_one (Float m e) = (if e \<ge> 0 then m * 2 ^ nat e \<le> 1 else m \<le> 2 ^ nat (- e))"
| "float_le_one PlusInf = False"
| "float_le_one MinusInf = True"
| "float_le_one NaN = False"

text \<open>\<^verbatim>\<open>os.stat_result\<close>, with the fields the module reads\<close>

record stat_result =
  st_mode :: nat
  st_size :: int
  st_atime :: pyfloat
  st_mtime :: pyfloat

text \<open>\<^verbatim>\<open>stat.S_IMODE(mode)\<close>: \<^verbatim>\<open>mode & 0o7777\<close>\<close>

definition S_IMODE :: "nat \<Rightarrow> nat" where
  "S_IMODE m = m mod 4096"

text \<open>
  The file system is the module's external collaborator.  It is modelled as a finite
  table from resolved absolute paths (lists of component names, the root being \<open>[]\<close>) to
  nodes: a directory, or a regular file with its stat record and content.  There are no
  symbolic links and no permission checks in this model; a path naming anything else
  does not exist.
\<close>

datatype node = Dir | File stat_result string

type_synonym filesystem = "(string list \<times> node) list"

definition fs_node :: "filesystem \<Rightarrow> string list \<Rightarrow> node option" where
  "fs_node fs q = (if q = [] then Some Dir else map_of fs q)"

definition is_dir_node :: "filesystem \<Rightarrow> string list \<Rightarrow> bool" where
  "is_dir_node fs q = (fs_node fs q = Some Dir)"

text \<open>
  Path resolution as the kernel does it: every component, \<^verbatim>\<open>.\<close> and \<^verbatim>\<open>..\<close>
  included, is looked up in a directory that must exist; \<^verbatim>\<open>..\<close> in the root is the
  root.  The last component need not exist.
\<close>

fun walk :: "filesystem \<Rightarrow> string list \<Rightarrow> string list \<Rightarrow> string list option" where
  "walk fs cur [] = Some cur"
| "walk fs cur (c # cs) =
     (if c = [] then walk fs cur cs
      else if \<not> is_dir_node fs cur then None
      else if c = ''.'' then walk fs cur cs
      else if c = ''..'' then walk fs (butlast cur) cs
      else walk fs (cur @ [c]) cs)"

definition resolve :: "filesystem \<Rightarrow> string \<Rightarrow> string \<Rightarrow> string list option" where
  "resolve fs cwd p =
     (if p = [] then None
      else if startswith p ''/'' then walk fs [] (split_sep p)
      else walk fs (filter (\<lambda>c. c \<noteq> []) (split_sep cwd)) (split_sep p))"

definition os_path_isfile :: "filesystem \<Rightarrow> string \<Rightarrow> string \<Rightarrow> bool" where
  "os_path_isfile fs cwd p =
     (case resolve fs cwd p of
        None \<Rightarrow> False
      | Some q \<Rightarrow> (case fs_node fs q of Some (File sb d) \<Rightarrow> True | _ \<Rightarrow> False))"

definition os_path_isdir :: "filesystem \<Rightarrow> string \<Rightarrow> string \<Rightarrow> bool" where
  "os_path_isdir fs cwd p =
     (case resolve fs cwd p of None \<Rightarrow> False | Some q \<Rightarrow> is_dir_node fs q)"

text \<open>
  \<^verbatim>\<open>os.stat(p)\<close>.  Only regular files carry a stat record in this model; the module
  calls it on a path for which \<^verbatim>\<open>isfile\<close> has just answered true.
\<close>

definition os_stat :: "filesystem \<Rightarrow> string \<Rightarrow> string \<Rightarrow> py_exc + stat_result" where
  "os_stat fs cwd p =
     (case resolve fs cwd p of
        None \<Rightarrow> Inl OSError
      | Some q \<Rightarrow> (case fs_node fs q of Some (File sb d) \<Rightarrow> Inr sb | _ \<Rightarrow> Inl OSError))"

text \<open>
  \<^verbatim>\<open>os.makedirs(d)\<close>, called by the module on a normalised absolute path: the
  missing directories are created from the root down; a regular file on the way, or a
  target that exists already, raises.  The table is returned also on failure (what was
  created stays).
\<close>

fun mkdirs :: "filesystem \<Rightarrow> string list \<Rightarrow> string list \<Rightarrow> filesystem \<times> bool" where
  "mkdirs fs cur [] = (fs, True)"
| "mkdirs fs cur (c # cs) =
     (case fs_node fs (cur @ [c]) of
        None \<Rightarrow> mkdirs (AList.update (cur @ [c]) Dir fs) (cur @ [c]) cs
      | Some Dir \<Rightarrow> mkdirs fs (cur @ [c]) cs
      | Some (File sb d) \<Rightarrow> (fs, False))"

definition os_makedirs :: "filesystem \<Rightarrow> string \<Rightarrow> string \<Rightarrow> filesystem \<times> bool" where
  "os_makedirs fs cwd d =
     (let q = filter (\<lambda>c. c \<noteq> []) (split_sep (posix_abspath cwd d))
      in if fs_node fs q \<noteq> None then (fs, False) else mkdirs fs [] q)"

text \<open>
  \<^verbatim>\<open>open(p, 'wb')\<close>: the parent must be a directory and the path must not name one; an
  existing file is truncated, a new one gets the mode and time the environment gives.
  The handle returned is the resolved path.
\<close>

definition open_wb ::
  "nat \<Rightarrow> pyfloat \<Rightarrow> filesystem \<Rightarrow> string \<Rightarrow> string \<Rightarrow> (filesystem \<times> string list) option" where
  "open_wb new_mode now fs cwd p =
     (case resolve fs cwd p of
        None \<Rightarrow> None
      | Some q \<Rightarrow>
          (case fs_node fs q of
             Some Dir \<Rightarrow> None
           | Some (File sb d) \<Rightarrow>
               Some (AList.update q (File (sb\<lparr>st_size := 0, st_mtime := now\<rparr>) []) fs, q)
           | None \<Rightarrow>
               if is_dir_node fs (butlast q) then
                 Some (AList.update q
                   (File \<lparr>st_mode = new_mode, st_size = 0, st_atime = now, st_mtime = now\<rparr> []) fs, q)
               else None))"

text \<open>\<^verbatim>\<open>fd.write(data)\<close> on a handle\<close>

definition fd_write :: "filesystem \<Rightarrow> string list \<Rightarrow> string \<Rightarrow> filesystem" where
  "fd_write fs q data =
     (case map_of fs q of
        Some (File sb d) \<Rightarrow>
          AList.update q (File (sb\<lparr>st_size := st_size sb + int (length data)\<rparr>) (d @ data)) fs
      | _ \<Rightarrow> fs)"

text \<open>\<^verbatim>\<open>os.remove(p)\<close>: the path must name a regular file.\<close>

definition os_remove :: "filesystem \<Rightarrow> string \<Rightarrow> string \<Rightarrow> filesystem option" where
  "os_remove fs cwd p =
     (case resolve fs cwd p of
        None \<Rightarrow> None
      | Some q \<Rightarrow> (case fs_node fs q of Some (File sb d) \<Rightarrow> Some (AList.delete q fs) | _ \<Rightarrow> None))"

text \<open>\<^verbatim>\<open>os.rmdir(p)\<close>: the path must name an empty directory other than the root.\<close>

definition os_rmdir :: "filesystem \<Rightarrow> string \<Rightarrow> string \<Rightarrow> filesystem option" where
  "os_rmdir fs cwd p =
     (case resolve fs cwd p of
        None \<Rightarrow> None
      | Some q \<Rightarrow>
          if q \<noteq> [] \<and> map_of fs q = Some Dir
             \<and> list_all (\<lambda>(q', n). \<not> (length q < length q' \<and> take (length q) q' = q)) fs
          then Some (AList.delete q fs) else None)"

text \<open>\<^verbatim>\<open>os.utime(p, (atime, mtime))\<close> and \<^verbatim>\<open>os.chmod(p, mode)\<close> on a regular file\<close>

definition os_utime :: "filesystem \<Rightarrow> string \<Rightarrow> string \<Rightarrow> pyfloat \<Rightarrow> pyfloat \<Rightarrow> filesystem" where
  "os_utime fs cwd p atime mtime =
     (case resolve fs cwd p of
        None \<Rightarrow> fs
      | Some q \<Rightarrow>
          (case map_of fs q of
             Some (File sb d) \<Rightarrow> AList.update q (File (sb\<lparr>st_atime := atime, st_mtime := mtime\<rparr>) d) fs
           | _ \<Rightarrow> fs))"

definition os_chmod :: "filesystem \<Rightarrow> string \<Rightarrow> string \<Rightarrow> nat \<Rightarrow> filesystem" where
  "os_chmod fs cwd p mode =
     (case resolve fs cwd p of
        None \<Rightarrow> fs
      | Some q \<Rightarrow>
          (case map_of fs q of
             Some (File sb d) \<Rightarrow>
               AList.update q (File (sb\<lparr>st_mode := (st_mode sb div 4096) * 4096 + mode mod 4096\<rparr>) d) fs
           | _ \<Rightarrow> fs))"

section \<open>The distributed scheduler\<close>

subsection \<open>Data\<close>

text \<open>\<^verbatim>\<open>Location(addr, port)\<close>, equal when both fields are.\<close>

record location =
  addr :: string
  port :: nat

text \<open>
  The Python values that travel in requests and replies: \<^verbatim>\<open>None\<close>, booleans,
  integers, strings, bytes, locations, stat records, handles of coroutines, channels and
  RCIs (an id or a name, and the location of the owner), exception objects and tuples.
\<close>

datatype pyval =
    PNone | PBool bool | PInt int | PStr string | PBytes string
  | PLocation location | PStat stat_result
  | PCoro int location | PChannel string location | PRCI string location
  | PException string | PTuple "pyval list"

text \<open>The truth value of a Python value.\<close>

fun truthy :: "pyval \<Rightarrow> bool" where
  "truthy PNone = False"
| "truthy (PBool b) = b"
| "truthy (PInt i) = (i \<noteq> 0)"
| "truthy (PStr s) = (s \<noteq> [])"
| "truthy (PBytes s) = (s \<noteq> [])"
| "truthy (PTuple vs) = (vs \<noteq> [])"
| "truthy v = True"

text \<open>
  \<^verbatim>\<open>int(v)\<close>: integers and booleans convert; the senders of this module pass the
  integer id of a coroutine, and the conversion of a string of digits is not modelled
  (it raises here).
\<close>

fun py_int :: "pyval \<Rightarrow> py_exc + int" where
  "py_int (PInt i) = Inr i"
| "py_int (PBool b) = Inr (if b then 1 else 0)"
| "py_int (PStr s) = Inl ValueError"
| "py_int (PBytes s) = Inl ValueError"
| "py_int v = Inl TypeError"

text \<open>
  \<^verbatim>\<open>_NetRequest\<close> as the dispatcher reads it.  \<open>req_kwargs\<close> is the dictionary of
  keyword arguments (the first binding of a key counts); \<open>req_event\<close> is \<open>None\<close> when
  the request has no \<^verbatim>\<open>Event\<close> and \<open>Some b\<close> when it has one whose flag is \<open>b\<close>.
\<close>

record NetRequest =
  req_name :: string
  req_kwargs :: "(string \<times> pyval) list"
  req_src :: "location option"
  req_dst :: "location option"
  req_auth :: "string option"
  req_event :: "bool option"
  req_id :: "int option"
  req_reply :: pyval
  req_timeout :: "real option"

definition new_request ::
  "string \<Rightarrow> (string \<times> pyval) list \<Rightarrow> location option \<Rightarrow> location option \<Rightarrow> string option
     \<Rightarrow> real option \<Rightarrow> NetRequest" where
  "new_request name kwargs src dst auth timeout =
     \<lparr>req_name = name, req_kwargs = kwargs, req_src = src, req_dst = dst, req_auth = auth,
      req_event = None, req_id = None, req_reply = PNone, req_timeout = timeout\<rparr>"

text \<open>\<^verbatim>\<open>kwargs.get(k, None)\<close> and \<^verbatim>\<open>kwargs[k]\<close>\<close>

definition kw_get :: "(string \<times> pyval) list \<Rightarrow> string \<Rightarrow> pyval" where
  "kw_get kw k = (case map_of kw k of None \<Rightarrow> PNone | Some v \<Rightarrow> v)"

definition kw_item :: "(string \<times> pyval) list \<Rightarrow> string \<Rightarrow> py_exc + pyval" where
  "kw_item kw k = (case map_of kw k of None \<Rightarrow> Inl KeyError | Some v \<Rightarrow> Inr v)"

text \<open>\<^verbatim>\<open>event.set()\<close> behind \<^verbatim>\<open>if req.event:\<close>\<close>

definition signal :: "bool option \<Rightarrow> bool option" where
  "signal ev = (case ev of None \<Rightarrow> None | Some b \<Rightarrow> Some True)"

text \<open>
  \<^verbatim>\<open>_Peer\<close>: \<open>peer_conn\<close> tells whether the connection to the peer is open,
  \<open>peer_reqs\<close> is the queue of requests to send and \<open>peer_reqs_pending\<close> the flag of
  the event that wakes the worker.
\<close>

record Peer =
  peer_location :: location
  peer_auth :: "string option"
  peer_keyfile :: "string option"
  peer_certfile :: "string option"
  peer_stream :: bool
  peer_conn :: bool
  peer_reqs :: "NetRequest list"
  peer_reqs_pending :: bool

text \<open>
  The state of one scheduler: its identity and secret, the table \<^verbatim>\<open>_Peer.peers\<close>
  (a class attribute: one table per process), the registries, the pending requests,
  the settings of file transfer, and the file system of its host.  Dictionaries the
  module iterates over are association lists in insertion order.
\<close>

record AsynCoro =
  own_name :: string
  own_location :: location
  secret :: "string option"
  signature :: "string option"
  auth_code :: "string option"
  keyfile :: "string option"
  certfile :: "string option"
  peers :: "((string \<times> nat) \<times> Peer) list"
  stream_peers :: "(string \<times> nat) set"
  requests :: "(int \<times> NetRequest) list"
  coros :: "int set"
  channels :: "pyval set"
  rcoros :: "(pyval \<times> pyval) list"
  rchannels :: "(pyval \<times> pyval) list"
  rcis :: "(pyval \<times> pyval) list"
  dest_path_prefix :: string
  max_file_size :: "int option"
  fs :: filesystem

text \<open>
  What a handler does to the outside, in order: messages written to the inbound
  connection, a request sent over a fresh connection, the exchange of a pong, calls into
  the local scheduler, the signalling of a pending request (given with its reply
  filled in), the termination of a peer's worker.
\<close>

datatype action =
    SendMsg pyval
  | SendBytes string
  | ConnectSend location NetRequest
  | PongExchange location NetRequest
  | CoroSend int pyval
  | ChannelSend pyval pyval
  | ChannelDeliver pyval pyval "real option" pyval
  | NewCoro pyval pyval pyval
  | Subscribe pyval pyval
  | Unsubscribe pyval pyval
  | Monitor pyval int
  | Throw int pyval
  | EventSet NetRequest
  | TerminateWorker location

text \<open>
  The collaborators the module calls and the constants it imports: the protocol
  version, SHA-1, the current directory, the clock and the mode of new files, the
  results of the local scheduler's operations, the bytes a peer answers to a pong
  (\<open>None\<close> when connecting, sending or receiving raises), and the bytes a sender
  streams after a \<^verbatim>\<open>send_file\<close> request.
\<close>

record env =
  version :: string
  sha1_hexdigest :: "string \<Rightarrow> string"
  getcwd :: string
  clock :: pyfloat
  new_file_mode :: nat
  coro_send :: "int \<Rightarrow> pyval \<Rightarrow> pyval"
  channel_send :: "pyval \<Rightarrow> pyval \<Rightarrow> pyval"
  channel_deliver :: "pyval \<Rightarrow> pyval \<Rightarrow> real option \<Rightarrow> pyval \<Rightarrow> pyval"
  new_coro :: "pyval \<Rightarrow> pyval \<Rightarrow> pyval \<Rightarrow> pyval"
  channel_subscribe :: "pyval \<Rightarrow> pyval \<Rightarrow> pyval"
  channel_unsubscribe :: "pyval \<Rightarrow> pyval \<Rightarrow> pyval"
  monitor_coro :: "pyval \<Rightarrow> int \<Rightarrow> pyval"
  throw_coro :: "int \<Rightarrow> pyval \<Rightarrow> pyval"
  pong_reply :: "location \<Rightarrow> NetRequest \<Rightarrow> string option"
  payload :: "NetRequest \<Rightarrow> string"

text \<open>
  How the handling of one message ends: the loop reads the next message, the loop is
  left (the connection is then closed), or an exception leaves the task.
\<close>

datatype flow = Continue | Break | Raised py_exc

type_synonym result = "AsynCoro \<times> action list \<times> flow"

subsection \<open>Authentication codes\<close>

text \<open>
  \<^verbatim>\<open>hashlib.sha1(bytes(signature + secret, 'ascii')).hexdigest()\<close>, or \<^verbatim>\<open>None\<close>
  for an instance without a secret.  The signature comes from a request: adding
  anything but a string to the secret raises, and so does a character outside ASCII.
\<close>

definition is_ascii :: "string \<Rightarrow> bool" where
  "is_ascii s = list_all (\<lambda>c. (of_char c :: nat) < 128) s"

definition compute_auth :: "env \<Rightarrow> string option \<Rightarrow> (string \<times> pyval) list \<Rightarrow> py_exc + string option" where
  "compute_auth e sec kw =
     (case sec of
        None \<Rightarrow> Inr None
      | Some k \<Rightarrow>
          (case map_of kw ''signature'' of
             None \<Rightarrow> Inl KeyError
           | Some (PStr sg) \<Rightarrow>
               if is_ascii (sg @ k) then Inr (Some (sha1_hexdigest e (sg @ k)))
               else Inl UnicodeEncodeError
           | Some v \<Rightarrow> Inl TypeError))"

subsection \<open>\<^verbatim>\<open>_Peer.send_req\<close> and \<^verbatim>\<open>_Peer.remove\<close>\<close>

definition send_req ::
  "((string \<times> nat) \<times> Peer) list \<Rightarrow> NetRequest \<Rightarrow> py_exc + ((string \<times> nat) \<times> Peer) list \<times> int" where
  "send_req ps req =
     (case req_dst req of
        None \<Rightarrow> Inl AttributeError
      | Some d \<Rightarrow>
          (case map_of ps (addr d, port d) of
             None \<Rightarrow> Inr (ps, - 1)
           | Some p \<Rightarrow>
               Inr (AList.update (addr d, port d)
                      (p\<lparr>peer_reqs := peer_reqs p @ [req], peer_reqs_pending := True\<rparr>) ps, 0)))"

definition remove_peer ::
  "((string \<times> nat) \<times> Peer) list \<Rightarrow> location \<Rightarrow> ((string \<times> nat) \<times> Peer) list \<times> action list" where
  "remove_peer ps l =
     (case map_of ps (addr l, port l) of
        None \<Rightarrow> (ps, [])
      | Some p \<Rightarrow> (AList.delete (addr l, port l) ps, [TerminateWorker l]))"

subsection \<open>The handlers of \<^verbatim>\<open>_tcp_task\<close>\<close>

text \<open>
  Each handler takes the state and an authenticated request and gives the new state,
  the actions and how the loop goes on.  An \<^verbatim>\<open>assert\<close> that fails, a missing key or
  an attribute of the wrong kind of value raises out of the task where the source
  has no \<^verbatim>\<open>try\<close> around it.
\<close>

definition raised :: "AsynCoro \<Rightarrow> py_exc \<Rightarrow> result" where
  "raised s e = (s, [], Raised e)"

definition replied :: "AsynCoro \<Rightarrow> action list \<Rightarrow> pyval \<Rightarrow> result" where
  "replied s acts reply = (s, acts @ [SendMsg reply], Continue)"

definition do_send :: "env \<Rightarrow> AsynCoro \<Rightarrow> NetRequest \<Rightarrow> result" where
  "do_send e s req =
     (if req_src req \<noteq> None then raised s AssertionError
      else if req_dst req \<noteq> Some (own_location s) then replied s [] (PInt (- 1))
      else let cid = kw_get (req_kwargs req) ''coro'' in
        if cid \<noteq> PNone then
          (case py_int cid of
             Inl x \<Rightarrow> raised s x
           | Inr i \<Rightarrow>
               if i \<in> coros s then
                 (case kw_item (req_kwargs req) ''message'' of
                    Inl x \<Rightarrow> raised s x
                  | Inr m \<Rightarrow> replied s [CoroSend i m] (coro_send e i m))
               else replied s [] (PInt (- 1)))
        else let name = kw_get (req_kwargs req) ''name'' in
          if name \<noteq> PNone then
            (if name \<in> channels s then
               (case kw_item (req_kwargs req) ''message'' of
                  Inl x \<Rightarrow> raised s x
                | Inr m \<Rightarrow> replied s [ChannelSend name m] (channel_send e name m))
             else replied s [] (PInt (- 1)))
          else replied s [] (PInt (- 1)))"

definition do_deliver :: "env \<Rightarrow> AsynCoro \<Rightarrow> NetRequest \<Rightarrow> result" where
  "do_deliver e s req =
     (if req_src req \<noteq> None then raised s AssertionError
      else if req_dst req \<noteq> Some (own_location s) then replied s [] (PInt (- 1))
      else let cid = kw_get (req_kwargs req) ''coro'' in
        if cid \<noteq> PNone then
          (case py_int cid of
             Inl x \<Rightarrow> raised s x
           | Inr i \<Rightarrow>
               if i \<in> coros s then
                 (case kw_item (req_kwargs req) ''message'' of
                    Inl x \<Rightarrow> raised s x
                  | Inr m \<Rightarrow> replied s [CoroSend i m] (PInt 1))
               else replied s [] (PInt (- 1)))
        else let name = kw_get (req_kwargs req) ''name'' in
          if name \<noteq> PNone then
            (if name \<in> channels s then
               (case kw_item (req_kwargs req) ''message'' of
                  Inl x \<Rightarrow> raised s x
                | Inr m \<Rightarrow>
                    (case kw_item (req_kwargs req) ''n'' of
                       Inl x \<Rightarrow> raised s x
                     | Inr n \<Rightarrow>
                         replied s [ChannelDeliver name m (req_timeout req) n]
                           (channel_deliver e name m (req_timeout req) n)))
             else replied s [] (PInt (- 1)))
          else replied s [] (PInt (- 1)))"

text \<open>
  \<^verbatim>\<open>run_rci\<close>: the reply is the new coroutine, or an exception object (whose text is
  abbreviated here: the source puts the name of the RCI, or the traceback, into it).
\<close>

definition do_run_rci :: "env \<Rightarrow> AsynCoro \<Rightarrow> NetRequest \<Rightarrow> result" where
  "do_run_rci e s req =
     (if req_src req \<noteq> None then raised s AssertionError
      else if req_dst req \<noteq> Some (own_location s)
        then replied s [] (PException ''invalid RCI invocation'')
      else
        (case kw_item (req_kwargs req) ''name'' of
           Inl x \<Rightarrow> raised s x
         | Inr name \<Rightarrow>
             (case map_of (rcis s) name of
                None \<Rightarrow> replied s [] (PException ''RCI is not registered'')
              | Some rci \<Rightarrow>
                  (case kw_item (req_kwargs req) ''args'' of
                     Inl x \<Rightarrow> raised s x
                   | Inr args \<Rightarrow>
                       (case kw_item (req_kwargs req) ''kwargs'' of
                          Inl x \<Rightarrow> raised s x
                        | Inr kwargs \<Rightarrow>
                            replied s [NewCoro rci args kwargs] (new_coro e rci args kwargs))))))"

text \<open>
  The reply of the \<^verbatim>\<open>locate_*\<close> verbs: inline when the request has no \<^verbatim>\<open>src\<close>;
  otherwise over a fresh connection to \<^verbatim>\<open>src\<close>, stamped with that peer's code, and
  only when \<^verbatim>\<open>src\<close> is in the peer table (a failure to connect or send is swallowed).
\<close>

definition reply_to :: "AsynCoro \<Rightarrow> NetRequest \<Rightarrow> pyval \<Rightarrow> action list" where
  "reply_to s req v =
     (case req_src req of
        None \<Rightarrow> [SendMsg v]
      | Some src \<Rightarrow>
          (case map_of (peers s) (addr src, port src) of
             None \<Rightarrow> []
           | Some p \<Rightarrow> [ConnectSend src (req\<lparr>req_auth := peer_auth p, req_reply := v\<rparr>)]))"

definition do_locate :: "(pyval \<times> pyval) list \<Rightarrow> AsynCoro \<Rightarrow> NetRequest \<Rightarrow> result" where
  "do_locate registry s req =
     (case kw_item (req_kwargs req) ''name'' of
        Inl x \<Rightarrow> raised s x
      | Inr name \<Rightarrow>
          let found = (case map_of registry name of None \<Rightarrow> PNone | Some h \<Rightarrow> h) in
          if found \<noteq> PNone \<or> req_dst req = Some (own_location s)
          then (s, reply_to s req found, Continue)
          else (s, [], Continue))"

definition do_locate_peer :: "AsynCoro \<Rightarrow> NetRequest \<Rightarrow> result" where
  "do_locate_peer s req =
     (case kw_item (req_kwargs req) ''name'' of
        Inl x \<Rightarrow> raised s x
      | Inr name \<Rightarrow>
          if name = PStr (own_name s) \<or> req_dst req = Some (own_location s) then
            (let loc = (if name = PStr (own_name s) then PLocation (own_location s) else PNone)
             in (s, reply_to s req loc, Continue))
          else (s, [], Continue))"

text \<open>The location a channel handle carries (\<^verbatim>\<open>channel._location\<close>).\<close>

fun handle_location :: "pyval \<Rightarrow> location option" where
  "handle_location (PChannel n l) = Some l"
| "handle_location (PCoro i l) = Some l"
| "handle_location (PRCI n l) = Some l"
| "handle_location v = None"

definition do_subscribe :: "env \<Rightarrow> AsynCoro \<Rightarrow> NetRequest \<Rightarrow> result" where
  "do_subscribe e s req =
     (if req_src req \<noteq> None \<or> req_dst req \<noteq> Some (own_location s) then raised s AssertionError
      else
        (case kw_item (req_kwargs req) ''name'' of
           Inl x \<Rightarrow> raised s x
         | Inr name \<Rightarrow>
             (case map_of (rchannels s) name of
                None \<Rightarrow> replied s [] (PInt (- 1))
              | Some channel \<Rightarrow>
                  if channel = PNone then replied s [] (PInt (- 1))
                  else if handle_location channel = None then raised s AttributeError
                  else if handle_location channel \<noteq> Some (own_location s) then replied s [] (PInt (- 1))
                  else let coro = kw_get (req_kwargs req) ''coro'';
                           subscriber = (if coro \<noteq> PNone then coro else kw_get (req_kwargs req) ''channel'')
                       in if subscriber \<noteq> PNone
                          then replied s [Subscribe channel subscriber] (channel_subscribe e channel subscriber)
                          else replied s [] (PInt (- 1)))))"

text \<open>
  \<^verbatim>\<open>unsubscribe\<close> leaves \<^verbatim>\<open>subscriber\<close> unassigned when the request names neither a
  coroutine nor a channel; reading it then raises (for the first message of a
  connection: a local of an earlier iteration is not modelled).
\<close>

definition do_unsubscribe :: "env \<Rightarrow> AsynCoro \<Rightarrow> NetRequest \<Rightarrow> result" where
  "do_unsubscribe e s req =
     (if req_src req \<noteq> None \<or> req_dst req \<noteq> Some (own_location s) then raised s AssertionError
      else
        (case kw_item (req_kwargs req) ''name'' of
           Inl x \<Rightarrow> raised s x
         | Inr name \<Rightarrow>
             (case map_of (rchannels s) name of
                None \<Rightarrow> replied s [] (PInt (- 1))
              | Some channel \<Rightarrow>
                  if channel = PNone then replied s [] (PInt (- 1))
                  else if handle_location channel = None then raised s AttributeError
                  else if handle_location channel \<noteq> Some (own_location s) then replied s [] (PInt (- 1))
                  else let rcoro = kw_get (req_kwargs req) ''coro'';
                           rchannel = kw_get (req_kwargs req) ''channel''
                       in if rcoro \<noteq> PNone
                          then replied s [Unsubscribe channel rcoro] (channel_unsubscribe e channel rcoro)
                          else if rchannel \<noteq> PNone
                          then replied s [Unsubscribe channel rchannel] (channel_unsubscribe e channel rchannel)
                          else raised s NameError)))"

definition do_monitor :: "env \<Rightarrow> AsynCoro \<Rightarrow> NetRequest \<Rightarrow> result" where
  "do_monitor e s req =
     (if req_src req \<noteq> None \<or> req_dst req \<noteq> Some (own_location s) then raised s AssertionError
      else
        (case (kw_get (req_kwargs req) ''coro'', kw_get (req_kwargs req) ''monitor'') of
           (PCoro i l, PCoro mi ml) \<Rightarrow>
             if i \<in> coros s then
               (if ml = own_location s then raised s AssertionError
                else replied s [Monitor (PCoro mi ml) i] (monitor_coro e (PCoro mi ml) i))
             else replied s [] (PInt (- 1))
         | _ \<Rightarrow> replied s [] (PInt (- 1))))"

definition do_exception :: "env \<Rightarrow> AsynCoro \<Rightarrow> NetRequest \<Rightarrow> result" where
  "do_exception e s req =
     (if req_src req \<noteq> None \<or> req_dst req \<noteq> Some (own_location s) then raised s AssertionError
      else
        (case kw_get (req_kwargs req) ''coro'' of
           PCoro i l \<Rightarrow>
             if i \<in> coros s then
               (case kw_get (req_kwargs req) ''exception'' of
                  PTuple exc \<Rightarrow> replied s [Throw i (PTuple exc)] (throw_coro e i (PTuple exc))
                | _ \<Rightarrow> replied s [] (PInt (- 1)))
             else replied s [] (PInt (- 1))
         | _ \<Rightarrow> replied s [] (PInt (- 1))))"

definition do_terminate :: "AsynCoro \<Rightarrow> NetRequest \<Rightarrow> result" where
  "do_terminate s req =
     (if req_src req \<noteq> None then raised s AssertionError
      else let peer = kw_get (req_kwargs req) ''peer'' in
        if truthy peer then
          (case peer of
             PLocation l \<Rightarrow>
               (case remove_peer (peers s) l of
                  (ps, acts) \<Rightarrow> (s\<lparr>peers := ps\<rparr>, acts @ [SendMsg (PBytes ''ack'')], Break))
           | _ \<Rightarrow> raised s AttributeError)
        else (s, [SendMsg (PBytes ''ack'')], Break))"

subsection \<open>File transfer: \<^verbatim>\<open>send_file\<close> and \<^verbatim>\<open>del_file\<close>\<close>

text \<open>
  The target of \<^verbatim>\<open>send_file\<close>:
  \<^verbatim>\<open>abspath(join(dest_path_prefix, join(dest_path, basename(file))))\<close>, the inner join
  only when \<^verbatim>\<open>dest_path\<close> is a string.
\<close>

definition send_file_target :: "env \<Rightarrow> AsynCoro \<Rightarrow> string \<Rightarrow> pyval \<Rightarrow> string" where
  "send_file_target e s file dest_path =
     (let tgt = posix_basename file;
          tgt = (case dest_path of PStr dp \<Rightarrow> posix_join dp tgt | _ \<Rightarrow> tgt)
      in posix_abspath (getcwd e) (posix_join (dest_path_prefix s) tgt))"

text \<open>
  The pre-flight decision of \<^verbatim>\<open>send_file\<close>, before anything is created: \<open>-1\<close>, \<open>1\<close>,
  the stat record of the existing target, or \<open>0\<close>.  \<open>same_file\<close> is its test of the
  sender's stat record against the target's: \<^verbatim>\<open>abs(stat_buf.st_mtime - sbuf.st_mtime) <= 1\<close>
  on doubles, equal sizes, equal permission bits.
\<close>

definition same_file :: "stat_result \<Rightarrow> stat_result \<Rightarrow> bool" where
  "same_file stat_buf sbuf =
     (float_le_one (float_abs (float_sub (st_mtime stat_buf) (st_mtime sbuf)))
      \<and> st_size stat_buf = st_size sbuf
      \<and> S_IMODE (st_mode stat_buf) = S_IMODE (st_mode sbuf))"

definition send_file_check ::
  "env \<Rightarrow> AsynCoro \<Rightarrow> string \<Rightarrow> stat_result \<Rightarrow> (string \<times> pyval) list \<Rightarrow> py_exc + pyval" where
  "send_file_check e s tgt stat_buf kw =
     (if (case max_file_size s of None \<Rightarrow> False | Some m \<Rightarrow> m \<noteq> 0 \<and> st_size stat_buf > m)
        then Inr (PInt (- 1))
      else if \<not> startswith tgt (dest_path_prefix s) then Inr (PInt (- 1))
      else if os_path_isfile (fs s) (getcwd e) tgt then
        (case os_stat (fs s) (getcwd e) tgt of
           Inl x \<Rightarrow> Inl x
         | Inr sbuf \<Rightarrow>
             if same_file stat_buf sbuf then Inr (PInt 1)
             else (case kw_item kw ''overwrite'' of
                     Inl x \<Rightarrow> Inl x
                   | Inr ow \<Rightarrow> if \<not> truthy ow then Inr (PStat sbuf) else Inr (PInt 0)))
      else Inr (PInt 0))"

text \<open>
  When the decision is \<open>0\<close>: the directory of the target is made if it is missing and
  the target is opened for writing; any failure turns the response into \<open>-1\<close>.
\<close>

definition create_target :: "env \<Rightarrow> filesystem \<Rightarrow> string \<Rightarrow> filesystem \<times> string list option" where
  "create_target e fs0 tgt =
     (let d = posix_dirname tgt;
          (fs1, ok) = (if \<not> os_path_isdir fs0 (getcwd e) d then os_makedirs fs0 (getcwd e) d
                       else (fs0, True))
      in if \<not> ok then (fs1, None)
         else (case open_wb (new_file_mode e) (clock e) fs1 (getcwd e) tgt of
                 None \<Rightarrow> (fs1, None)
               | Some (fs2, fd) \<Rightarrow> (fs2, Some fd)))"

text \<open>
  The copy loop: \<^verbatim>\<open>recvall(min(st_size - n, 10240000))\<close> gives the next bytes of the
  stream (fewer, or none, when the stream ends), which are written to the file.
\<close>

function recv_loop :: "filesystem \<Rightarrow> string list \<Rightarrow> string \<Rightarrow> int \<Rightarrow> int \<Rightarrow> filesystem \<times> int" where
  "recv_loop fs0 fd stream sz n =
     (if n < sz \<and> take (nat (min (sz - n) 10240000)) stream \<noteq> [] then
        recv_loop (fd_write fs0 fd (take (nat (min (sz - n) 10240000)) stream)) fd
          (drop (nat (min (sz - n) 10240000)) stream) sz
          (n + int (length (take (nat (min (sz - n) 10240000)) stream)))
      else (fs0, n))"
  by pat_completeness auto
termination
  by (relation "measure (\<lambda>(fs0, fd, stream, sz, n). nat (sz - n))") auto

declare recv_loop.simps [simp del]

text \<open>
  After the response \<open>0\<close>: the bytes are copied to the open file; a short stream
  removes the target and answers \<open>-1\<close>, a complete one sets the times and the mode
  of the sender's stat record and answers \<open>0\<close>.
\<close>

definition receive_file ::
  "env \<Rightarrow> AsynCoro \<Rightarrow> NetRequest \<Rightarrow> string \<Rightarrow> stat_result \<Rightarrow> filesystem \<Rightarrow> string list \<Rightarrow> result" where
  "receive_file e s req tgt stat_buf fs1 fd =
     (case recv_loop fs1 fd (payload e req) (st_size stat_buf) 0 of
        (fs2, n) \<Rightarrow>
          if n < st_size stat_buf then
            (case os_remove fs2 (getcwd e) tgt of
               None \<Rightarrow> (s\<lparr>fs := fs2\<rparr>, [], Raised OSError)
             | Some fs3 \<Rightarrow> (s\<lparr>fs := fs3\<rparr>, [SendMsg (PInt (- 1))], Continue))
          else
            (s\<lparr>fs := os_chmod
                    (os_utime fs2 (getcwd e) tgt (st_atime stat_buf) (st_mtime stat_buf))
                    (getcwd e) tgt (S_IMODE (st_mode stat_buf))\<rparr>,
             [SendMsg (PInt 0)], Continue))"

definition after_sending :: "pyval \<Rightarrow> result \<Rightarrow> result" where
  "after_sending resp r = (case r of (s, acts, fl) \<Rightarrow> (s, SendMsg resp # acts, fl))"

definition do_send_file :: "env \<Rightarrow> AsynCoro \<Rightarrow> NetRequest \<Rightarrow> result" where
  "do_send_file e s req =
     (if req_src req \<noteq> None \<or> req_dst req \<noteq> Some (own_location s) then raised s AssertionError
      else
        (case kw_item (req_kwargs req) ''file'' of
           Inl x \<Rightarrow> raised s x
         | Inr (PStr file) \<Rightarrow>
             (case kw_item (req_kwargs req) ''dest_path'' of
                Inl x \<Rightarrow> raised s x
              | Inr dest_path \<Rightarrow>
                  (case kw_item (req_kwargs req) ''stat_buf'' of
                     Inl x \<Rightarrow> raised s x
                   | Inr (PStat stat_buf) \<Rightarrow>
                       (let tgt = send_file_target e s file dest_path in
                        case send_file_check e s tgt stat_buf (req_kwargs req) of
                          Inl x \<Rightarrow> raised s x
                        | Inr resp \<Rightarrow>
                            if resp \<noteq> PInt 0 then replied s [] resp
                            else
                              (case create_target e (fs s) tgt of
                                 (fs1, None) \<Rightarrow> replied (s\<lparr>fs := fs1\<rparr>) [] (PInt (- 1))
                               | (fs1, Some fd) \<Rightarrow>
                                   after_sending (PInt 0) (receive_file e s req tgt stat_buf fs1 fd)))
                   | Inr v \<Rightarrow> raised s AttributeError))
         | Inr v \<Rightarrow> raised s TypeError))"

text \<open>
  \<^verbatim>\<open>del_file\<close>: the target is \<^verbatim>\<open>join(dest_path_prefix, join(dest_path, basename(file)))\<close>,
  the inner join only for a non-empty string; after the file is removed, the loop
  removes the directories above it while they are greater (as strings) than the
  prefix, until one cannot be removed.
\<close>

definition del_file_target :: "AsynCoro \<Rightarrow> string \<Rightarrow> pyval \<Rightarrow> string" where
  "del_file_target s file dest_path =
     (let tgt = posix_basename file;
          tgt = (case dest_path of PStr dp \<Rightarrow> (if dp \<noteq> [] then posix_join dp tgt else tgt) | _ \<Rightarrow> tgt)
      in posix_join (dest_path_prefix s) tgt)"

text \<open>
  The sender's side, in \<^verbatim>\<open>AsynCoro.send_file\<close> and \<^verbatim>\<open>AsynCoro.del_file\<close>: a
  non-empty \<^verbatim>\<open>dest_path\<close> is stripped of surrounding white space and refused when
  \<^verbatim>\<open>os.path.join(os.sep, dest_path) == dest_path\<close>, that is, when it is absolute.
  (\<^verbatim>\<open>str.strip\<close> on ASCII: the characters 9 to 13, 28 to 32.)
\<close>

definition is_space :: "char \<Rightarrow> bool" where
  "is_space c = ((9 \<le> (of_char c :: nat) \<and> (of_char c :: nat) \<le> 13)
                 \<or> (28 \<le> (of_char c :: nat) \<and> (of_char c :: nat) \<le> 32))"

definition py_strip :: "string \<Rightarrow> string" where
  "py_strip x = rev (dropWhile is_space (rev (dropWhile is_space x)))"

definition dest_path_refused :: "string \<Rightarrow> bool" where
  "dest_path_refused dest_path =
     (dest_path \<noteq> [] \<and> posix_join ''/'' (py_strip dest_path) = py_strip dest_path)"

lemma split_sep_slashes: "set d \<subseteq> {CHR ''/''} \<Longrightarrow> set (split_sep d) \<subseteq> {[]}"
  by (induction d) auto

lemma walk_empties: "set cs \<subseteq> {[]} \<Longrightarrow> walk fs0 cur cs = Some cur"
  by (induction cs) auto

lemma dirname_shorter:
  assumes ns: "\<not> set d \<subseteq> {CHR ''/''}"
  shows "length (posix_dirname d) < length d"
proof (cases "rev d")
  case Nil
  with ns show ?thesis by simp
next
  case (Cons x xs)
  have len: "length d = Suc (length xs)"
    using Cons by (metis length_rev length_Cons)
  show ?thesis
  proof (cases "x = CHR ''/''")
    case False
    have "length (dropWhile (\<lambda>c. c = CHR ''/'') (dropWhile (\<lambda>c. c \<noteq> CHR ''/'') xs)) \<le> length xs"
      by (meson length_dropWhile_le order_trans)
    moreover have "length (dropWhile (\<lambda>c. c \<noteq> CHR ''/'') xs) \<le> length xs"
      by (rule length_dropWhile_le)
    ultimately show ?thesis
      using False by (simp add: posix_dirname_def Let_def Cons len)
  next
    case True
    from ns have "\<not> set (rev d) \<subseteq> {CHR ''/''}" by simp
    with Cons True have ex: "\<exists>c \<in> set xs. c \<noteq> CHR ''/''" by auto
    have "length (dropWhile (\<lambda>c. c = CHR ''/'') xs) \<le> length xs"
      by (rule length_dropWhile_le)
    with ex show ?thesis
      using True by (simp add: posix_dirname_def Let_def Cons len)
  qed
qed

lemma os_rmdir_shorter:
  assumes "os_rmdir fs0 cwd d = Some fs1"
  shows "length (posix_dirname d) < length d"
proof (rule dirname_shorter, rule notI)
  assume sl: "set d \<subseteq> {CHR ''/''}"
  from assms have ne: "d \<noteq> []" by (auto simp: os_rmdir_def resolve_def)
  with sl have "startswith d ''/''" by (cases d) (auto simp: startswith_def)
  with ne sl have "resolve fs0 cwd d = Some []"
    by (simp add: resolve_def walk_empties split_sep_slashes)
  with assms show False by (simp add: os_rmdir_def)
qed

function rmdir_up :: "filesystem \<Rightarrow> string \<Rightarrow> string \<Rightarrow> string \<Rightarrow> filesystem" where
  "rmdir_up fs0 cwd prefix d =
     (if str_less prefix d \<and> os_path_isdir fs0 cwd d then
        (case os_rmdir fs0 cwd d of
           None \<Rightarrow> fs0
         | Some fs1 \<Rightarrow> rmdir_up fs1 cwd prefix (posix_dirname d))
      else fs0)"
  by pat_completeness auto
termination
proof (relation "measure (\<lambda>(fs0, cwd, prefix, d). length d)")
  show "wf (measure (\<lambda>(fs0 :: filesystem, cwd :: string, prefix :: string, d :: string). length d))"
    by simp
next
  fix fs0 :: filesystem and cwd prefix d :: string and fs1
  assume "os_rmdir fs0 cwd d = Some fs1"
  then have "length (posix_dirname d) < length d" by (rule os_rmdir_shorter)
  then show "((fs1, cwd, prefix, posix_dirname d), (fs0, cwd, prefix, d))
      \<in> measure (\<lambda>(fs0, cwd, prefix, d). length d)"
    by simp
qed

declare rmdir_up.simps [simp del]



definition do_del_file :: "env \<Rightarrow> AsynCoro \<Rightarrow> NetRequest \<Rightarrow> result" where
  "do_del_file e s req =
     (if req_src req \<noteq> None \<or> req_dst req \<noteq> Some (own_location s) then raised s AssertionError
      else
        (case kw_item (req_kwargs req) ''file'' of
           Inl x \<Rightarrow> raised s x
         | Inr (PStr file) \<Rightarrow>
             (case kw_item (req_kwargs req) ''dest_path'' of
                Inl x \<Rightarrow> raised s x
              | Inr dest_path \<Rightarrow>
                  (let tgt = del_file_target s file dest_path in
                   if startswith tgt (dest_path_prefix s) \<and> os_path_isfile (fs s) (getcwd e) tgt then
                     (case os_remove (fs s) (getcwd e) tgt of
                        None \<Rightarrow> raised s OSError
                      | Some fs1 \<Rightarrow>
                          replied (s\<lparr>fs := rmdir_up fs1 (getcwd e) (dest_path_prefix s) (posix_dirname tgt)\<rparr>)
                            [] (PInt 0))
                   else replied s [] (PInt (- 1))))
         | Inr v \<Rightarrow> raised s TypeError))"

subsection \<open>The handshake: \<^verbatim>\<open>ping\<close> and \<^verbatim>\<open>pong\<close>\<close>

text \<open>
  What both handlers do once the other side is accepted: the ping is relayed to the
  other schedulers of this host (queued on their peers), the peer is put into the table
  unless it is there by now, and the pending requests it may answer are sent to it.
\<close>

fun relay ::
  "((string \<times> nat) \<times> Peer) list \<Rightarrow> NetRequest list \<Rightarrow> py_exc + ((string \<times> nat) \<times> Peer) list" where
  "relay ps [] = Inr ps"
| "relay ps (r # rs) = (case send_req ps r of Inl x \<Rightarrow> Inl x | Inr (ps', status) \<Rightarrow> relay ps' rs)"

definition install :: "env \<Rightarrow> AsynCoro \<Rightarrow> NetRequest \<Rightarrow> location \<Rightarrow> string option \<Rightarrow> action list \<Rightarrow> result" where
  "install e s req req_peer code acts =
     (let ports = [p. ((a, p), peer) \<leftarrow> peers s,
                      a = addr (own_location s) \<and> p \<noteq> port (own_location s)]
      in if ports \<noteq> [] \<and> map_of (req_kwargs req) ''signature'' = None then (s, acts, Raised KeyError)
         else
           (case relay (peers s)
                   (map (\<lambda>p. new_request ''ping''
                              [(''peer'', PLocation req_peer), (''version'', PStr (version e)),
                               (''signature'', kw_get (req_kwargs req) ''signature'')]
                              None (Some \<lparr>addr = addr (own_location s), port = p\<rparr>) None (Some 1))
                        ports) of
              Inl x \<Rightarrow> (s, acts, Raised x)
            | Inr ps \<Rightarrow>
                if map_of ps (addr req_peer, port req_peer) \<noteq> None then (s\<lparr>peers := ps\<rparr>, acts, Break)
                else
                  (s\<lparr>peers := AList.update (addr req_peer, port req_peer)
                       \<lparr>peer_location = req_peer, peer_auth = code, peer_keyfile = keyfile s,
                        peer_certfile = certfile s,
                        peer_stream = ((addr req_peer, port req_peer) \<in> stream_peers s
                                       \<or> (addr req_peer, 0) \<in> stream_peers s),
                        peer_conn = False, peer_reqs = [], peer_reqs_pending = False\<rparr> ps\<rparr>,
                   acts @ [ConnectSend req_peer (r\<lparr>req_auth := code, req_event := None\<rparr>).
                             (i, r) \<leftarrow> requests s, req_dst r = None \<or> req_dst r = Some req_peer],
                   Continue)))"

text \<open>
  The guarded part of \<^verbatim>\<open>ping\<close>: the peer named by the request, the code computed
  for it and the version check; anything that raises there ends the loop.
\<close>

definition ping_info :: "env \<Rightarrow> AsynCoro \<Rightarrow> NetRequest \<Rightarrow> py_exc + pyval \<times> string option" where
  "ping_info e s req =
     (case kw_item (req_kwargs req) ''peer'' of
        Inl x \<Rightarrow> Inl x
      | Inr req_peer \<Rightarrow>
          (case compute_auth e (secret s) (req_kwargs req) of
             Inl x \<Rightarrow> Inl x
           | Inr code \<Rightarrow>
               (case kw_item (req_kwargs req) ''version'' of
                  Inl x \<Rightarrow> Inl x
                | Inr v \<Rightarrow> if v = PStr (version e) then Inr (req_peer, code) else Inl AssertionError)))"

definition make_pong :: "env \<Rightarrow> AsynCoro \<Rightarrow> location \<Rightarrow> string option \<Rightarrow> NetRequest" where
  "make_pong e s req_peer code =
     new_request ''pong''
       [(''peer'', PLocation (own_location s)),
        (''signature'', (case signature s of None \<Rightarrow> PNone | Some sg \<Rightarrow> PStr sg)),
        (''version'', PStr (version e))]
       None (Some req_peer) code None"

definition do_ping :: "env \<Rightarrow> AsynCoro \<Rightarrow> NetRequest \<Rightarrow> result" where
  "do_ping e s req =
     (case ping_info e s req of
        Inl x \<Rightarrow> (s, [], Break)
      | Inr (PLocation req_peer, code) \<Rightarrow>
          if req_peer = own_location s then (s, [], Break)
          else if (case map_of (peers s) (addr req_peer, port req_peer) of
                     None \<Rightarrow> False | Some p \<Rightarrow> peer_auth p = code)
            then (s, [], Break)
          else
            (let pong = make_pong e s req_peer code in
             if pong_reply e req_peer pong = Some ''ack''
             then install e s req req_peer code [PongExchange req_peer pong]
             else (s, [PongExchange req_peer pong], Break))
      | Inr (v, code) \<Rightarrow> raised s AttributeError)"

text \<open>
  \<^verbatim>\<open>pong\<close>: everything up to the answer is guarded.  (The handler of the guard
  logs \<^verbatim>\<open>req_peer\<close>; when the request has no peer at all that name is unassigned
  and the task dies, for the first message of a connection.)
\<close>

definition do_pong :: "env \<Rightarrow> AsynCoro \<Rightarrow> NetRequest \<Rightarrow> result" where
  "do_pong e s req =
     (case kw_item (req_kwargs req) ''peer'' of
        Inl x \<Rightarrow> raised s NameError
      | Inr v \<Rightarrow>
          (case kw_item (req_kwargs req) ''version'' of
             Inl x \<Rightarrow> (s, [], Break)
           | Inr ver \<Rightarrow>
               if ver \<noteq> PStr (version e) then (s, [], Break)
               else
                 (case compute_auth e (secret s) (req_kwargs req) of
                    Inl x \<Rightarrow> (s, [], Break)
                  | Inr code \<Rightarrow>
                      (case v of
                         PLocation req_peer \<Rightarrow>
                           if (case map_of (peers s) (addr req_peer, port req_peer) of
                                 None \<Rightarrow> False | Some p \<Rightarrow> peer_auth p = code)
                           then (s, [SendBytes ''nak''], Break)
                           else install e s req req_peer code [SendBytes ''ack'']
                       | _ \<Rightarrow> (s, [], Break)))))"

subsection \<open>The dispatcher\<close>

text \<open>
  A message whose \<^verbatim>\<open>src\<close> is this scheduler is the reply to a pending request: the
  entry is popped, the reply copied into it and its event set; then the loop is left.
\<close>

definition async_reply :: "AsynCoro \<Rightarrow> NetRequest \<Rightarrow> result" where
  "async_reply s reply =
     (case req_id reply of
        None \<Rightarrow> (s, [], Break)
      | Some i \<Rightarrow>
          (case map_of (requests s) i of
             None \<Rightarrow> (s, [], Break)
           | Some req \<Rightarrow>
               (case req_event req of
                  None \<Rightarrow> (s\<lparr>requests := AList.delete i (requests s)\<rparr>, [], Raised AttributeError)
                | Some b \<Rightarrow>
                    (s\<lparr>requests := AList.delete i (requests s)\<rparr>,
                     [EventSet (req\<lparr>req_reply := req_reply reply, req_event := Some True\<rparr>)], Break))))"

definition dispatch :: "env \<Rightarrow> AsynCoro \<Rightarrow> NetRequest \<Rightarrow> result" where
  "dispatch e s req =
     (if req_name req = ''send'' then do_send e s req
      else if req_name req = ''deliver'' then do_deliver e s req
      else if req_name req = ''run_rci'' then do_run_rci e s req
      else if req_name req = ''locate_channel'' then do_locate (rchannels s) s req
      else if req_name req = ''locate_coro'' then do_locate (rcoros s) s req
      else if req_name req = ''locate_rci'' then do_locate (rcis s) s req
      else if req_name req = ''subscribe'' then do_subscribe e s req
      else if req_name req = ''monitor'' then do_monitor e s req
      else if req_name req = ''exception'' then do_exception e s req
      else if req_name req = ''ping'' then do_ping e s req
      else if req_name req = ''pong'' then do_pong e s req
      else if req_name req = ''unsubscribe'' then do_unsubscribe e s req
      else if req_name req = ''locate_peer'' then do_locate_peer s req
      else if req_name req = ''send_file'' then do_send_file e s req
      else if req_name req = ''del_file'' then do_del_file e s req
      else if req_name req = ''terminate'' then do_terminate s req
      else (s, [], Continue))"

text \<open>
  What follows the authentication of a request: the check of its destination, the
  replies to this scheduler's own requests, and the verbs.
\<close>

definition validated :: "env \<Rightarrow> AsynCoro \<Rightarrow> NetRequest \<Rightarrow> result" where
  "validated e s req =
     (if req_dst req \<noteq> None \<and> req_dst req \<noteq> Some (own_location s) then (s, [], Break)
      else if req_src req = Some (own_location s) then async_reply s req
      else dispatch e s req)"

text \<open>
  One turn of the loop of \<^verbatim>\<open>_tcp_task\<close> on a message that was read: \<open>None\<close> is a
  message that does not unserialize; a request passes when its code is this
  scheduler's, or when it is a \<^verbatim>\<open>ping\<close>.
\<close>

definition tcp_task_msg :: "env \<Rightarrow> AsynCoro \<Rightarrow> NetRequest option \<Rightarrow> result" where
  "tcp_task_msg e s msg =
     (case msg of
        None \<Rightarrow> (s, [], Break)
      | Some req \<Rightarrow>
          if req_auth req \<noteq> auth_code s \<and> req_name req \<noteq> ''ping'' then (s, [], Break)
          else validated e s req)"

text \<open>
  The task of one inbound connection, on the messages the peer sends before it closes:
  it ends with the connection closed (the loop was left, or there was nothing more to
  read), or it dies of an exception.
\<close>

datatype task_end = Closed | Died py_exc

fun tcp_task :: "env \<Rightarrow> AsynCoro \<Rightarrow> NetRequest option list \<Rightarrow> AsynCoro \<times> action list \<times> task_end" where
  "tcp_task e s [] = (s, [], Closed)"
| "tcp_task e s (msg # msgs) =
     (case tcp_task_msg e s msg of
        (s', acts, Continue) \<Rightarrow>
          (case tcp_task e s' msgs of (s'', acts', r) \<Rightarrow> (s'', acts @ acts', r))
      | (s', acts, Break) \<Rightarrow> (s', acts, Closed)
      | (s', acts, Raised x) \<Rightarrow> (s', acts, Died x))"

subsection \<open>The worker of a peer: \<^verbatim>\<open>_Peer.req_proc\<close>\<close>

text \<open>
  The network is the worker's collaborator: for each request it tells whether
  connecting succeeds and how the exchange (send the request, receive and unserialize
  the reply) ends.  The worker's use of its socket is recorded in order.
\<close>

datatype exchange = Replied pyval | SocketError | SocketTimeout | OtherError

datatype sock_action =
    SockConnect location | SockSetTimeout "real option" | SockSend NetRequest | SockClose

definition exchange_step :: "exchange \<Rightarrow> Peer \<Rightarrow> NetRequest \<Rightarrow> Peer \<times> NetRequest \<times> sock_action list" where
  "exchange_step x self req =
     (case x of
        Replied v \<Rightarrow>
          (self,
           req\<lparr>req_auth := peer_auth self, req_reply := v, req_event := signal (req_event req)\<rparr>,
           [SockSend (req\<lparr>req_auth := peer_auth self\<rparr>)])
      | _ \<Rightarrow>
          (self\<lparr>peer_conn := False\<rparr>,
           req\<lparr>req_auth := peer_auth self, req_reply := PNone, req_event := signal (req_event req)\<rparr>,
           [SockSend (req\<lparr>req_auth := peer_auth self\<rparr>), SockClose]))"

text \<open>
  One request, popped from the queue: connect when there is no connection (a failure
  gives the request up), then stamp, send and receive.
\<close>

definition req_step :: "bool \<times> exchange \<Rightarrow> Peer \<Rightarrow> NetRequest \<Rightarrow> Peer \<times> NetRequest \<times> sock_action list" where
  "req_step net self req =
     (if \<not> peer_conn self then
        (let t = (if req_timeout req \<noteq> None \<and> req_timeout req \<noteq> Some 0
                  then [SockSetTimeout (req_timeout req)] else [])
         in if fst net then
              (case exchange_step (snd net) (self\<lparr>peer_conn := True\<rparr>) req of
                 (p, r, t') \<Rightarrow> (p, r, t @ [SockConnect (peer_location self)] @ t'))
            else
              (self\<lparr>peer_conn := False\<rparr>,
               req\<lparr>req_reply := PNone, req_event := signal (req_event req)\<rparr>,
               t @ [SockConnect (peer_location self)]))
      else
        (case exchange_step (snd net) self req of
           (p, r, t') \<Rightarrow> (p, r, SockSetTimeout (req_timeout req) # t')))"

lemma req_step_reqs: "(p, rt) = req_step net self req \<Longrightarrow> peer_reqs p = peer_reqs self"
  by (auto simp: req_step_def exchange_step_def Let_def split: if_splits exchange.splits)

text \<open>
  The loop, until the queue is empty and the worker waits for \<^verbatim>\<open>reqs_pending\<close>:
  it gives the peer, the requests it has handled (as their owners see them afterwards)
  and the socket's record.  \<open>net i\<close> is the network's answer for the \<open>i\<close>-th request.
\<close>

function req_proc ::
  "(nat \<Rightarrow> bool \<times> exchange) \<Rightarrow> nat \<Rightarrow> Peer \<Rightarrow> Peer \<times> NetRequest list \<times> sock_action list" where
  "req_proc net i self =
     (case peer_reqs self of
        [] \<Rightarrow>
          (if \<not> peer_stream self \<and> peer_conn self
           then (self\<lparr>peer_conn := False, peer_reqs_pending := False\<rparr>, [], [SockClose])
           else (self\<lparr>peer_reqs_pending := False\<rparr>, [], []))
      | req # rest \<Rightarrow>
          (case req_step (net i) (self\<lparr>peer_reqs := rest\<rparr>) req of
             (self', req', t) \<Rightarrow>
               (case req_proc net (Suc i) self' of
                  (p, handled, t') \<Rightarrow> (p, req' # handled, t @ t'))))"
  by pat_completeness auto
termination
  by (relation "measure (\<lambda>(net, i, self). length (peer_reqs self))")
    (auto dest: req_step_reqs)

declare req_proc.simps [simp del]

subsection \<open>\<^verbatim>\<open>AsynCoro.peer\<close>\<close>

text \<open>
  \<open>resolve_host\<close> is \<^verbatim>\<open>socket.gethostbyname\<close> (\<open>None\<close> when it raises); \<open>udp_ok\<close> and
  \<open>tcp_ok\<close> tell whether the UDP send and the TCP connect-and-send go through (when
  they raise, the exception is swallowed and nothing is sent).  The result is the
  value returned, the new state and what was sent.
\<close>

datatype sent = UdpPing string nat "(string \<times> pyval) list" | TcpPing location NetRequest

definition peer ::
  "(string \<Rightarrow> string option) \<Rightarrow> bool \<Rightarrow> bool \<Rightarrow> env \<Rightarrow> AsynCoro \<Rightarrow> string \<Rightarrow> nat \<Rightarrow> nat \<Rightarrow> bool
     \<Rightarrow> int \<times> AsynCoro \<times> sent list" where
  "peer resolve_host udp_ok tcp_ok e s node udp_port tcp_port stream_send =
     (case resolve_host node of
        None \<Rightarrow> (- 1, s, [])
      | Some n \<Rightarrow>
          (let udp_port = (if udp_port = 0 then 51350 else udp_port);
               info = [(''location'', PLocation (own_location s)),
                       (''signature'', (case signature s of None \<Rightarrow> PNone | Some sg \<Rightarrow> PStr sg)),
                       (''version'', PStr (version e))];
               sel = (\<lambda>k. fst k = n \<and> (tcp_port = 0 \<or> tcp_port = snd k));
               s1 = (if stream_send then
                       s\<lparr>peers := map (\<lambda>(k, p). if sel k then (k, p\<lparr>peer_stream := True\<rparr>) else (k, p)) (peers s),
                         stream_peers := insert (n, tcp_port) (stream_peers s)\<rparr>
                     else
                       s\<lparr>peers := map (\<lambda>(k, p). if sel k then (k, p\<lparr>peer_stream := False\<rparr>) else (k, p)) (peers s),
                         stream_peers := stream_peers s - set (filter sel (map fst (peers s))) - {(n, tcp_port)}\<rparr>);
               udp = (if udp_ok then [UdpPing n udp_port info] else []);
               tcp = (if tcp_port \<noteq> 0 \<and> tcp_ok then
                        [TcpPing \<lparr>addr = n, port = tcp_port\<rparr>
                           (new_request ''ping''
                              [(''peer'', PLocation (own_location s)),
                               (''signature'', (case signature s of None \<Rightarrow> PNone | Some sg \<Rightarrow> PStr sg)),
                               (''version'', PStr (version e))]
                              None (Some \<lparr>addr = n, port = tcp_port\<rparr>) None None)]
                      else [])
           in (0, s1, udp @ tcp)))"

subsection \<open>Discovery between two schedulers\<close>

text \<open>
  The part of \<^verbatim>\<open>__init__\<close> that sets the secret: without one, signature and code are
  \<^verbatim>\<open>None\<close>; with one, the signature is the random string \<open>sg\<close> and the code the
  digest of signature and secret.
\<close>

definition init_secret :: "env \<Rightarrow> string option \<Rightarrow> string \<Rightarrow> AsynCoro \<Rightarrow> AsynCoro" where
  "init_secret e sec sg s =
     (case sec of
        None \<Rightarrow> s\<lparr>secret := None, signature := None, auth_code := None\<rparr>
      | Some k \<Rightarrow>
          s\<lparr>secret := Some k, signature := Some sg, auth_code := Some (sha1_hexdigest e (sg @ k))\<rparr>)"

text \<open>
  The dictionary a scheduler announces itself with (after \<^verbatim>\<open>ping:\<close>, over UDP) and the
  \<^verbatim>\<open>ping\<close> request it sends over TCP.
\<close>

definition ping_msg :: "env \<Rightarrow> AsynCoro \<Rightarrow> (string \<times> pyval) list" where
  "ping_msg e s =
     [(''location'', PLocation (own_location s)),
      (''signature'', (case signature s of None \<Rightarrow> PNone | Some sg \<Rightarrow> PStr sg)),
      (''version'', PStr (version e))]"

definition make_ping :: "env \<Rightarrow> AsynCoro \<Rightarrow> location \<Rightarrow> string option \<Rightarrow> NetRequest" where
  "make_ping e s req_peer code =
     new_request ''ping''
       [(''peer'', PLocation (own_location s)),
        (''signature'', (case signature s of None \<Rightarrow> PNone | Some sg \<Rightarrow> PStr sg)),
        (''version'', PStr (version e))]
       None (Some req_peer) code None"

text \<open>
  One turn of the loop of \<^verbatim>\<open>_udp_proc\<close> on a datagram that starts with \<^verbatim>\<open>ping:\<close>
  (\<open>None\<close>: the rest does not unserialize): the \<^verbatim>\<open>ping\<close> request sent over TCP to
  the announced location, or nothing when the guarded part raises or the peer is this
  scheduler or one already known with the code computed.
\<close>

definition udp_proc_msg ::
  "env \<Rightarrow> AsynCoro \<Rightarrow> (string \<times> pyval) list option \<Rightarrow> (location \<times> NetRequest) option" where
  "udp_proc_msg e s msg =
     (case msg of
        None \<Rightarrow> None
      | Some info \<Rightarrow>
          (case kw_item info ''version'' of
             Inl x \<Rightarrow> None
           | Inr v \<Rightarrow>
               if v \<noteq> PStr (version e) then None
               else
                 (case kw_item info ''location'' of
                    Inl x \<Rightarrow> None
                  | Inr l \<Rightarrow>
                      (case compute_auth e (secret s) info of
                         Inl x \<Rightarrow> None
                       | Inr code \<Rightarrow>
                           (case l of
                              PLocation req_peer \<Rightarrow>
                                if req_peer = own_location s then None
                                else if (case map_of (peers s) (addr req_peer, port req_peer) of
                                           None \<Rightarrow> False | Some p \<Rightarrow> peer_auth p = code)
                                  then None
                                else Some (req_peer, make_ping e s req_peer code)
                            | _ \<Rightarrow> None)))))"

text \<open>
  Two schedulers \<open>a\<close> and \<open>b\<close> on a network that delivers.  What \<open>a\<close> answers to a
  pong: the bytes its dispatcher writes first to the connection, if any.  A \<^verbatim>\<open>ping\<close>
  delivered to \<open>b\<close>: \<open>b\<close> handles it with the pong it sends to \<open>a\<close> answered by \<open>a\<close>'s
  dispatcher; both states afterwards.  A round of discovery: \<open>b\<close> announces itself,
  \<open>a\<close> hears it and sends its ping, which is delivered to \<open>b\<close>.
\<close>

definition answer_pong :: "env \<Rightarrow> AsynCoro \<Rightarrow> NetRequest \<Rightarrow> AsynCoro \<times> string option" where
  "answer_pong e a pong =
     (case tcp_task_msg e a (Some pong) of
        (a', acts, fl) \<Rightarrow>
          (a', case [x. SendBytes x \<leftarrow> acts] of [] \<Rightarrow> None | x # xs \<Rightarrow> Some x))"

definition deliver_ping :: "env \<Rightarrow> AsynCoro \<Rightarrow> AsynCoro \<Rightarrow> NetRequest \<Rightarrow> AsynCoro \<times> AsynCoro" where
  "deliver_ping e a b ping =
     (case tcp_task_msg
             (e\<lparr>pong_reply := \<lambda>l pong. if l = own_location a then snd (answer_pong e a pong)
                                        else pong_reply e l pong\<rparr>)
             b (Some ping) of
        (b', acts, fl) \<Rightarrow>
          (foldl (\<lambda>a' act. case act of
                     PongExchange l pong \<Rightarrow>
                       if l = own_location a then fst (answer_pong e a' pong) else a'
                   | _ \<Rightarrow> a') a acts,
           b'))"

definition discovery :: "env \<Rightarrow> AsynCoro \<Rightarrow> AsynCoro \<Rightarrow> AsynCoro \<times> AsynCoro" where
  "discovery e a b =
     (case udp_proc_msg e a (Some (ping_msg e b)) of
        None \<Rightarrow> (a, b)
      | Some (l, ping) \<Rightarrow> if l = own_location b then deliver_ping e a b ping else (a, b))"

section \<open>Observations and concrete inputs\<close>

text \<open>
  An environment whose collaborators answer with fixed values (its stand-in for SHA-1 is
  the identity, which has no collisions) and a scheduler with a secret, one local
  coroutine and an empty transfer directory.  They are the concrete inputs on which the
  theorems below are instantiated.
\<close>

definition example_env :: env where
  "example_env =
     \<lparr>version = ''4.1'', sha1_hexdigest = (\<lambda>x. x), getcwd = ''/'', clock = Float 100 0, new_file_mode = 33188,
      coro_send = (\<lambda>i m. PInt 0), channel_send = (\<lambda>c m. PInt 0),
      channel_deliver = (\<lambda>c m t n. PInt 1), new_coro = (\<lambda>r a k. PException ''failed''),
      channel_subscribe = (\<lambda>c x. PInt 0), channel_unsubscribe = (\<lambda>c x. PInt 0),
      monitor_coro = (\<lambda>m i. PInt 0), throw_coro = (\<lambda>i x. PInt 0),
      pong_reply = (\<lambda>l r. None), payload = (\<lambda>r. [])\<rparr>"

definition example_node :: AsynCoro where
  "example_node =
     \<lparr>own_name = ''alpha'', own_location = \<lparr>addr = ''10.0.0.1'', port = 5000\<rparr>,
      secret = Some ''s1'', signature = Some ''ab'', auth_code = Some ''abs1'',
      keyfile = None, certfile = None, peers = [], stream_peers = {},
      requests = [], coros = {7}, channels = {}, rcoros = [], rchannels = [], rcis = [],
      dest_path_prefix = ''/tmp/asyncoro'', max_file_size = None,
      fs = [([''tmp''], Dir), ([''tmp'', ''asyncoro''], Dir)]\<rparr>"

text \<open>The scheduler with one pending request, of id 41, waiting for its reply.\<close>

definition waiting_node :: AsynCoro where
  "waiting_node =
     example_node\<lparr>requests :=
       [(41, (new_request ''locate_peer'' [(''name'', PStr ''beta'')]
                (Some (own_location example_node)) None None None)
               \<lparr>req_event := Some False, req_id := Some 41\<rparr>)]\<rparr>"

text \<open>A peer without a connection and with two requests in its queue, the first with an event.\<close>

definition example_peer :: Peer where
  "example_peer =
     \<lparr>peer_location = \<lparr>addr = ''10.0.0.2'', port = 6000\<rparr>, peer_auth = Some ''cds1'',
      peer_keyfile = None, peer_certfile = None, peer_stream = False, peer_conn = False,
      peer_reqs =
        [(new_request ''send'' [(''coro'', PInt 3), (''message'', PStr ''m1'')] None
            (Some \<lparr>addr = ''10.0.0.2'', port = 6000\<rparr>) None None)\<lparr>req_event := Some False\<rparr>,
         new_request ''ping'' [] None (Some \<lparr>addr = ''10.0.0.2'', port = 6000\<rparr>) None (Some 1)],
      peer_reqs_pending = True\<rparr>"

text \<open>The first message a handler wrote to the inbound connection: for \<^verbatim>\<open>send_file\<close>, the response.\<close>

definition first_sent :: "action list \<Rightarrow> pyval option" where
  "first_sent acts = (case [v. SendMsg v \<leftarrow> acts] of [] \<Rightarrow> None | v # vs \<Rightarrow> Some v)"

text \<open>
  The scheduler with the file \<^verbatim>\<open>/tmp/asyncoro/sub/data\<close> already received, and
  \<^verbatim>\<open>send_file\<close> requests for a file \<^verbatim>\<open>data\<close>.
\<close>

definition stocked_node :: AsynCoro where
  "stocked_node =
     example_node\<lparr>fs := [([''tmp''], Dir), ([''tmp'', ''asyncoro''], Dir),
                         ([''tmp'', ''asyncoro'', ''sub''], Dir),
                         ([''tmp'', ''asyncoro'', ''sub'', ''data''],
                          File \<lparr>st_mode = 33188, st_size = 3, st_atime = Float 50 0, st_mtime = Float 50 0\<rparr> ''abc'')]\<rparr>"

definition send_file_request :: "string \<Rightarrow> stat_result \<Rightarrow> bool \<Rightarrow> NetRequest" where
  "send_file_request dest_path stat_buf overwrite =
     new_request ''send_file''
       [(''file'', PStr ''data''), (''stat_buf'', PStat stat_buf), (''overwrite'', PBool overwrite),
        (''dest_path'', PStr dest_path)]
       None (Some (own_location example_node)) (Some ''abs1'') None"

text \<open>
  Containment as the specification words it: the normalised path lies under the
  normalised prefix, component by component.
\<close>

definition lies_under :: "string \<Rightarrow> string \<Rightarrow> bool" where
  "lies_under prefix p =
     (let pc = filter (\<lambda>c. c \<noteq> []) (split_sep (posix_normpath prefix));
          tc = filter (\<lambda>c. c \<noteq> []) (split_sep (posix_normpath p))
      in take (length pc) tc = pc)"

text \<open>
  The scheduler on a host that has a file \<^verbatim>\<open>/tmp/victim\<close> beside the transfer
  directory, and two requests whose \<^verbatim>\<open>dest_path\<close> is relative (the sender's own check
  lets it through) and leads out of the directory.
\<close>

definition victim_node :: AsynCoro where
  "victim_node =
     example_node\<lparr>fs := [([''tmp''], Dir), ([''tmp'', ''asyncoro''], Dir),
                         ([''tmp'', ''victim''],
                          File \<lparr>st_mode = 33188, st_size = 6, st_atime = Float 50 0, st_mtime = Float 50 0\<rparr> ''secret'')]\<rparr>"

definition escaping_del_file :: NetRequest where
  "escaping_del_file =
     new_request ''del_file'' [(''file'', PStr ''victim''), (''dest_path'', PStr ''..'')]
       None (Some (own_location example_node)) (Some ''abs1'') None"

definition escaping_send_file :: NetRequest where
  "escaping_send_file =
     new_request ''send_file''
       [(''file'', PStr ''data''),
        (''stat_buf'', PStat \<lparr>st_mode = 33188, st_size = 0, st_atime = Float 7 0, st_mtime = Float 8 0\<rparr>),
        (''overwrite'', PBool False), (''dest_path'', PStr ''../asyncoro_evil'')]
       None (Some (own_location example_node)) (Some ''abs1'') None"

text \<open>A second scheduler, with another secret.\<close>

definition other_node :: AsynCoro where
  "other_node =
     example_node\<lparr>own_name := ''beta'', own_location := \<lparr>addr = ''10.0.0.2'', port = 6000\<rparr>,
                  secret := Some ''s2'', signature := Some ''cd'', auth_code := Some ''cds2''\<rparr>"

text \<open>
  A digest that is no injection: 40 characters, the argument cut or filled up with
  zeros.  Its environment, and the two schedulers as \<^verbatim>\<open>__init__\<close> sets them up with it.
\<close>

definition digest_env :: env where
  "digest_env = example_env\<lparr>sha1_hexdigest := \<lambda>x. take 40 (x @ replicate 40 CHR ''0'')\<rparr>"

definition digest_node :: AsynCoro where
  "digest_node = init_secret digest_env (Some ''s1'') ''ab'' example_node"

definition other_digest_node :: AsynCoro where
  "other_digest_node = init_secret digest_env (Some ''s2'') ''cd'' other_node"

text \<open>
  The codes of two secrets under a signature do not collide: the digest of the
  signature with the one secret is not the digest with the other.
\<close>

definition no_collision :: "env \<Rightarrow> string \<Rightarrow> string option \<Rightarrow> string option \<Rightarrow> bool" where
  "no_collision e sg sa sb =
     (case (sa, sb) of
        (Some ka, Some kb) \<Rightarrow> sha1_hexdigest e (sg @ ka) \<noteq> sha1_hexdigest e (sg @ kb)
      | _ \<Rightarrow> True)"

text \<open>
  What a \<^verbatim>\<open>send_file\<close> request whose pre-flight decision is \<open>0\<close> comes to, in terms of
  the calls on the file system.  The directory of the target is made when it is no
  directory.  When that fails, or when \<^verbatim>\<open>open\<close> fails, the result \<open>R\<close> is the
  response \<open>-1\<close>, with the file system as \<^verbatim>\<open>makedirs\<close> left it.  Otherwise the target
  is open and empty, the response is \<open>0\<close>, and \<open>R\<close> is what the copy of the data gives
  from there.
\<close>

definition creates_target :: "env \<Rightarrow> AsynCoro \<Rightarrow> NetRequest \<Rightarrow> string \<Rightarrow> stat_result \<Rightarrow> result \<Rightarrow> bool" where
  "creates_target e s req tgt stat_buf R =
     (let made = (if os_path_isdir (fs s) (getcwd e) (posix_dirname tgt) then (fs s, True)
                  else os_makedirs (fs s) (getcwd e) (posix_dirname tgt));
          opened = open_wb (new_file_mode e) (clock e) (fst made) (getcwd e) tgt
      in (\<not> snd made \<or> opened = None
            \<longrightarrow> R = (s\<lparr>fs := fst made\<rparr>, [SendMsg (PInt (- 1))], Continue))
         \<and> (snd made \<longrightarrow>
              (case opened of
                 None \<Rightarrow> True
               | Some (fs2, fd) \<Rightarrow>
                   resolve (fst made) (getcwd e) tgt = Some fd
                   \<and> (case map_of fs2 fd of Some (File sb d) \<Rightarrow> d = [] | _ \<Rightarrow> False)
                   \<and> first_sent (fst (snd R)) = Some (PInt 0)
                   \<and> R = after_sending (PInt 0) (receive_file e s req tgt stat_buf fs2 fd))))"

section \<open>Lemmas\<close>

lemmas path_defs = posix_basename_def posix_dirname_def posix_join_def posix_abspath_def
  posix_normpath_def initial_slashes_def startswith_def endswith_def

lemmas fs_defs = resolve_def fs_node_def is_dir_node_def os_path_isfile_def os_path_isdir_def
  os_stat_def os_remove_def os_rmdir_def os_makedirs_def open_wb_def fd_write_def os_utime_def
  os_chmod_def

lemma isfile_stat:
  "os_path_isfile fs0 cwd p \<Longrightarrow> \<exists>sbuf. os_stat fs0 cwd p = Inr sbuf"
  by (auto simp: os_path_isfile_def os_stat_def split: option.splits node.splits)

lemma do_send_file_resp:
  assumes "req_src req = None" "req_dst req = Some (own_location s)"
    "map_of (req_kwargs req) ''file'' = Some (PStr file)"
    "map_of (req_kwargs req) ''dest_path'' = Some dest_path"
    "map_of (req_kwargs req) ''stat_buf'' = Some (PStat stat_buf)"
    "tgt = send_file_target e s file dest_path"
    "send_file_check e s tgt stat_buf (req_kwargs req) = Inr resp"
    "resp \<noteq> PInt 0"
  shows "do_send_file e s req = (s, [SendMsg resp], Continue)"
  using assms
  by (auto simp: do_send_file_def kw_item_def replied_def Let_def split: prod.splits option.splits)

lemma open_wb_Some:
  assumes "open_wb m now f cwd p = Some (fs2, fd)"
  shows "resolve f cwd p = Some fd"
    and "case map_of fs2 fd of Some (File sb d) \<Rightarrow> d = [] | _ \<Rightarrow> False"
  using assms
  by (auto simp: open_wb_def update_conv' split: option.splits node.splits if_splits)

lemma first_sent_after_sending: "first_sent (fst (snd (after_sending v r))) = Some v"
  by (cases r) (simp add: after_sending_def first_sent_def)

lemma do_send_file_zero:
  assumes "req_src req = None" "req_dst req = Some (own_location s)"
    "map_of (req_kwargs req) ''file'' = Some (PStr file)"
    "map_of (req_kwargs req) ''dest_path'' = Some dest_path"
    "map_of (req_kwargs req) ''stat_buf'' = Some (PStat stat_buf)"
    "tgt = send_file_target e s file dest_path"
    "send_file_check e s tgt stat_buf (req_kwargs req) = Inr (PInt 0)"
  shows "creates_target e s req tgt stat_buf (do_send_file e s req)"
proof -
  have d: "do_send_file e s req =
      (case create_target e (fs s) tgt of
         (fs1, None) \<Rightarrow> (s\<lparr>fs := fs1\<rparr>, [SendMsg (PInt (- 1))], Continue)
       | (fs1, Some fd) \<Rightarrow> after_sending (PInt 0) (receive_file e s req tgt stat_buf fs1 fd))"
    using assms
    by (auto simp: do_send_file_def kw_item_def replied_def Let_def split: prod.splits option.splits)
  show ?thesis
  proof (cases "os_path_isdir (fs s) (getcwd e) (posix_dirname tgt)")
    case True
    show ?thesis
    proof (cases "open_wb (new_file_mode e) (clock e) (fs s) (getcwd e) tgt")
      case None
      with True show ?thesis by (simp add: creates_target_def d create_target_def)
    next
      case (Some r)
      obtain fs2 fd where r: "r = (fs2, fd)" by (cases r)
      from open_wb_Some [OF Some [unfolded r]] True Some r show ?thesis
        by (simp add: creates_target_def d create_target_def first_sent_after_sending)
    qed
  next
    case False
    obtain fs1 ok where m: "os_makedirs (fs s) (getcwd e) (posix_dirname tgt) = (fs1, ok)"
      by (cases "os_makedirs (fs s) (getcwd e) (posix_dirname tgt)")
    show ?thesis
    proof (cases ok)
      case no: False
      with False m show ?thesis by (simp add: creates_target_def d create_target_def)
    next
      case ok: True
      show ?thesis
      proof (cases "open_wb (new_file_mode e) (clock e) fs1 (getcwd e) tgt")
        case None
        with False m ok show ?thesis by (simp add: creates_target_def d create_target_def)
      next
        case (Some r)
        obtain fs2 fd where r: "r = (fs2, fd)" by (cases r)
        from open_wb_Some [OF Some [unfolded r]] False m ok Some r show ?thesis
          by (simp add: creates_target_def d create_target_def first_sent_after_sending)
      qed
    qed
  qed
qed

text \<open>
  What the receiver's test does give: a target that, as a string, does not start with
  the prefix is answered with \<open>-1\<close> and nothing changes.
\<close>

lemma string_test_rejects_send_file:
  assumes "req_src req = None" "req_dst req = Some (own_location s)"
    "map_of (req_kwargs req) ''file'' = Some (PStr file)"
    "map_of (req_kwargs req) ''dest_path'' = Some dest_path"
    "map_of (req_kwargs req) ''stat_buf'' = Some (PStat stat_buf)"
    "\<not> startswith (send_file_target e s file dest_path) (dest_path_prefix s)"
  shows "do_send_file e s req = (s, [SendMsg (PInt (- 1))], Continue)"
proof -
  from assms(6)
  have "send_file_check e s (send_file_target e s file dest_path) stat_buf (req_kwargs req)
      = Inr (PInt (- 1))"
    by (simp add: send_file_check_def)
  from do_send_file_resp [OF assms(1-5) refl this] show ?thesis by simp
qed

lemma string_test_rejects_del_file:
  assumes "req_src req = None" "req_dst req = Some (own_location s)"
    "map_of (req_kwargs req) ''file'' = Some (PStr file)"
    "map_of (req_kwargs req) ''dest_path'' = Some dest_path"
    "\<not> startswith (del_file_target s file dest_path) (dest_path_prefix s)"
  shows "do_del_file e s req = (s, [SendMsg (PInt (- 1))], Continue)"
  using assms by (simp add: do_del_file_def kw_item_def replied_def Let_def)

lemma relative_dest_path_not_refused:
  "\<not> dest_path_refused ''..'' \<and> \<not> dest_path_refused ''../asyncoro_evil''
   \<and> dest_path_refused ''/etc''"
  by (simp add: dest_path_refused_def py_strip_def is_space_def posix_join_def startswith_def
      endswith_def)

text \<open>
  The subtraction rounds: \<open>1.3 - 0.3\<close>, as doubles, is more than \<open>1\<close> before the
  rounding and \<open>1\<close> after it, so that two files of these modification times are the
  same file to the module.
\<close>

lemma bitlength_numeral [simp]:
  "bitlength 0 = 0" "bitlength 1 = 1" "bitlength (Suc 0) = 1"
  "bitlength (numeral (Num.Bit0 n)) = Suc (bitlength (numeral n))"
  "bitlength (numeral (Num.Bit1 n)) = Suc (bitlength (numeral n))"
  by (subst bitlength.simps, simp add: bitlength.simps [of 0])+

lemma float_sub_rounds:
  "float_sub (Float 5854679515581645 (- 52)) (Float 5404319552844595 (- 54))
     = Float 4503599627370496 (- 52)
   \<and> same_file \<lparr>st_mode = 33188, st_size = 3, st_atime = Float 7 0,
                  st_mtime = Float 5854679515581645 (- 52)\<rparr>
                \<lparr>st_mode = 33188, st_size = 3, st_atime = Float 50 0,
                  st_mtime = Float 5404319552844595 (- 54)\<rparr>"
  by (simp add: same_file_def round_to_double_def Let_def)

lemma example_target:
  "send_file_target example_env stocked_node ''data'' (PStr ''sub'') = ''/tmp/asyncoro/sub/data''"
  by (simp add: send_file_target_def posix_basename_def posix_join_def posix_abspath_def
      posix_normpath_def initial_slashes_def startswith_def endswith_def
      example_env_def stocked_node_def example_node_def)

lemma example_target_isfile:
  "os_path_isfile (fs stocked_node) (getcwd example_env) ''/tmp/asyncoro/sub/data''"
  by (simp add: os_path_isfile_def resolve_def startswith_def fs_node_def is_dir_node_def
      stocked_node_def example_env_def)

lemma example_target_stat:
  "os_stat (fs stocked_node) (getcwd example_env) ''/tmp/asyncoro/sub/data''
     = Inr \<lparr>st_mode = 33188, st_size = 3, st_atime = Float 50 0, st_mtime = Float 50 0\<rparr>"
  by (simp add: os_stat_def resolve_def startswith_def fs_node_def is_dir_node_def
      stocked_node_def example_env_def)

lemma escaping_del_file_target:
  "del_file_target victim_node ''victim'' (PStr ''..'') = ''/tmp/asyncoro/../victim''"
  by (simp add: del_file_target_def path_defs victim_node_def example_node_def)

lemma escaping_del_file_removes:
  "do_del_file example_env victim_node escaping_del_file
     = (victim_node\<lparr>fs := [([''tmp''], Dir), ([''tmp'', ''asyncoro''], Dir)]\<rparr>,
        [SendMsg (PInt 0)], Continue)"
proof -
  have r: "os_remove (fs victim_node) ''/'' ''/tmp/asyncoro/../victim''
      = Some [([''tmp''], Dir), ([''tmp'', ''asyncoro''], Dir)]"
    by (simp add: fs_defs path_defs victim_node_def)
  have i: "os_path_isfile (fs victim_node) ''/'' ''/tmp/asyncoro/../victim''"
    by (simp add: fs_defs path_defs victim_node_def)
  have d: "posix_dirname ''/tmp/asyncoro/../victim'' = ''/tmp/asyncoro/..''"
    by (simp add: path_defs)
  have u: "rmdir_up [([''tmp''], Dir), ([''tmp'', ''asyncoro''], Dir)] ''/'' ''/tmp/asyncoro''
      ''/tmp/asyncoro/..'' = [([''tmp''], Dir), ([''tmp'', ''asyncoro''], Dir)]"
    by (subst rmdir_up.simps) (simp add: fs_defs path_defs)
  have p: "startswith ''/tmp/asyncoro/../victim'' ''/tmp/asyncoro''"
    by (simp add: startswith_def)
  have c: "getcwd example_env = ''/''" "dest_path_prefix victim_node = ''/tmp/asyncoro''"
    "own_location victim_node = own_location example_node"
    by (simp_all add: example_env_def victim_node_def example_node_def)
  show ?thesis
    by (simp add: do_del_file_def escaping_del_file_def new_request_def kw_item_def replied_def
        Let_def escaping_del_file_target c r i d u p)
qed

lemma escaping_send_file_target:
  "send_file_target example_env victim_node ''data'' (PStr ''../asyncoro_evil'')
     = ''/tmp/asyncoro_evil/data''"
  by (simp add: send_file_target_def path_defs victim_node_def example_node_def example_env_def)

lemma escaping_send_file_creates:
  "do_send_file example_env victim_node escaping_send_file
     = (victim_node\<lparr>fs := fs victim_node @
           [([''tmp'', ''asyncoro_evil''], Dir),
            ([''tmp'', ''asyncoro_evil'', ''data''],
             File \<lparr>st_mode = 33188, st_size = 0, st_atime = Float 7 0, st_mtime = Float 8 0\<rparr> [])]\<rparr>,
        [SendMsg (PInt 0), SendMsg (PInt 0)], Continue)"
proof -
  let ?sb = "\<lparr>st_mode = 33188, st_size = 0, st_atime = Float 7 0, st_mtime = Float 8 0\<rparr>"
  let ?fs1 = "fs victim_node @
           [([''tmp'', ''asyncoro_evil''], Dir),
            ([''tmp'', ''asyncoro_evil'', ''data''],
             File \<lparr>st_mode = 33188, st_size = 0, st_atime = Float 100 0, st_mtime = Float 100 0\<rparr> [])]"
  have c: "getcwd example_env = ''/''" "dest_path_prefix victim_node = ''/tmp/asyncoro''"
    "own_location victim_node = own_location example_node" "max_file_size victim_node = None"
    "new_file_mode example_env = 33188" "clock example_env = Float 100 0"
    "payload example_env = (\<lambda>r. [])"
    by (simp_all add: example_env_def victim_node_def example_node_def)
  have k: "send_file_check example_env victim_node ''/tmp/asyncoro_evil/data'' ?sb kw = Inr (PInt 0)"
    for kw
    by (simp add: send_file_check_def fs_defs path_defs victim_node_def example_node_def example_env_def)
  have t: "create_target example_env (fs victim_node) ''/tmp/asyncoro_evil/data''
      = (?fs1, Some [''tmp'', ''asyncoro_evil'', ''data''])"
    by (simp add: create_target_def fs_defs path_defs victim_node_def example_node_def example_env_def)
  have l: "recv_loop ?fs1 [''tmp'', ''asyncoro_evil'', ''data''] [] 0 0 = (?fs1, 0)"
    by (subst recv_loop.simps) simp
  have m: "os_chmod (os_utime ?fs1 ''/'' ''/tmp/asyncoro_evil/data'' (Float 7 0) (Float 8 0)) ''/''
      ''/tmp/asyncoro_evil/data'' (S_IMODE 33188)
      = fs victim_node @
           [([''tmp'', ''asyncoro_evil''], Dir),
            ([''tmp'', ''asyncoro_evil'', ''data''], File ?sb [])]"
    by (simp add: fs_defs path_defs victim_node_def S_IMODE_def)
  show ?thesis
    by (simp add: do_send_file_def receive_file_def after_sending_def escaping_send_file_def
        new_request_def kw_item_def replied_def Let_def escaping_send_file_target c k t l m)
qed

lemma foreign_code_differs:
  assumes nc: "no_collision e sga sa sb" and sec: "sa \<noteq> sb"
    and sg: "map_of kw ''signature''
               = Some (case signature (init_secret e sa sga a0) of None \<Rightarrow> PNone | Some x \<Rightarrow> PStr x)"
    and c: "compute_auth e sb kw = Inr code"
  shows "code \<noteq> auth_code (init_secret e sa sga a0)"
proof (cases sb)
  case None
  with sec obtain ka where "sa = Some ka" by (cases sa) auto
  with None c show ?thesis by (simp add: compute_auth_def init_secret_def)
next
  case (Some kb)
  show ?thesis
  proof (cases sa)
    case None
    with Some sg c show ?thesis by (simp add: compute_auth_def init_secret_def)
  next
    case (Some ka)
    with \<open>sb = Some kb\<close> nc have "sha1_hexdigest e (sga @ kb) \<noteq> sha1_hexdigest e (sga @ ka)"
      by (auto simp: no_collision_def)
    with Some \<open>sb = Some kb\<close> sg c show ?thesis
      by (auto simp: compute_auth_def init_secret_def split: if_splits)
  qed
qed

lemma pong_rejected:
  "req_name pong = ''pong'' \<Longrightarrow> req_auth pong \<noteq> auth_code a \<Longrightarrow> answer_pong e a pong = (a, None)"
  by (simp add: answer_pong_def tcp_task_msg_def)

lemma ping_info_Inr:
  "ping_info e b ping = Inr (v, code) \<Longrightarrow>
     map_of (req_kwargs ping) ''peer'' = Some v \<and> compute_auth e (secret b) (req_kwargs ping) = Inr code"
  by (auto simp: ping_info_def kw_item_def split: option.splits sum.splits if_splits)

lemma do_ping_without_ack:
  assumes "\<And>rp code. ping_info e b ping = Inr (PLocation rp, code)
             \<Longrightarrow> pong_reply e rp (make_pong e b rp code) \<noteq> Some ''ack''"
  shows "do_ping e b ping = (b, [], Break) \<or> do_ping e b ping = (b, [], Raised AttributeError)
       \<or> (\<exists>rp code. ping_info e b ping = Inr (PLocation rp, code)
             \<and> do_ping e b ping = (b, [PongExchange rp (make_pong e b rp code)], Break))"
proof (cases "ping_info e b ping")
  case (Inl x)
  then show ?thesis by (simp add: do_ping_def)
next
  case (Inr vc)
  obtain v code where vc: "vc = (v, code)" by (cases vc)
  show ?thesis
  proof (cases "\<exists>rp. v = PLocation rp")
    case False
    with Inr vc show ?thesis by (cases v) (simp_all add: do_ping_def raised_def)
  next
    case True
    then obtain rp where v: "v = PLocation rp" ..
    from assms Inr vc v have "pong_reply e rp (make_pong e b rp code) \<noteq> Some ''ack''" by simp
    with Inr vc v show ?thesis by (simp add: do_ping_def Let_def)
  qed
qed

lemma async_reply_peers:
  "async_reply s r = (s', acts, fl) \<Longrightarrow> peers s' = peers s \<and> (acts = [] \<or> (\<exists>q. acts = [EventSet q]))"
  by (auto simp: async_reply_def split: option.splits)

lemma secret_init [simp]: "secret (init_secret e sec sg s) = sec"
  by (simp add: init_secret_def split: option.splits)

lemma deliver_ping_rejected:
  assumes nc: "no_collision e sga sa sb" and sec: "sa \<noteq> sb"
    and n: "req_name ping = ''ping''"
    and p: "map_of (req_kwargs ping) ''peer'' = Some (PLocation (own_location (init_secret e sa sga a0)))"
    and g: "map_of (req_kwargs ping) ''signature''
              = Some (case signature (init_secret e sa sga a0) of None \<Rightarrow> PNone | Some x \<Rightarrow> PStr x)"
  shows "fst (deliver_ping e (init_secret e sa sga a0) (init_secret e sb sgb b0) ping)
           = init_secret e sa sga a0
       \<and> peers (snd (deliver_ping e (init_secret e sa sga a0) (init_secret e sb sgb b0) ping))
           = peers (init_secret e sb sgb b0)"
proof -
  define a where "a = init_secret e sa sga a0"
  define b where "b = init_secret e sb sgb b0"
  define e' where "e' = e\<lparr>pong_reply := \<lambda>l pong. if l = own_location a then snd (answer_pong e a pong)
                                        else pong_reply e l pong\<rparr>"
  have sh: "sha1_hexdigest e' = sha1_hexdigest e" by (simp add: e'_def)
  have ca: "compute_auth e' x kw = compute_auth e x kw" for x kw
    by (simp only: compute_auth_def sh)
  have rej: "code \<noteq> auth_code a \<Longrightarrow> answer_pong e a (make_pong e' b (own_location a) code) = (a, None)"
    for code
    by (rule pong_rejected) (simp_all add: make_pong_def new_request_def)
  have code: "code \<noteq> auth_code a" if "ping_info e' b ping = Inr (PLocation rp, code)" for rp code
  proof -
    from ping_info_Inr [OF that] have "compute_auth e sb (req_kwargs ping) = Inr code"
      by (simp add: ca b_def)
    from foreign_code_differs [OF nc sec g this] show ?thesis by (simp add: a_def)
  qed
  have rp: "rp = own_location a" if "ping_info e' b ping = Inr (PLocation rp, code)" for rp code
    using ping_info_Inr [OF that] p by (simp add: a_def)
  have noack: "pong_reply e' rp (make_pong e' b rp code) \<noteq> Some ''ack''"
    if "ping_info e' b ping = Inr (PLocation rp, code)" for rp code
    using rej [OF code [OF that]] rp [OF that] by (simp add: e'_def)
  obtain b' acts fl where r: "tcp_task_msg e' b (Some ping) = (b', acts, fl)"
    by (cases "tcp_task_msg e' b (Some ping)")
  have v: "tcp_task_msg e' b (Some ping) = validated e' b ping"
    using n by (simp add: tcp_task_msg_def)
  have shape: "peers b' = peers b \<and>
      (acts = [] \<or> (\<exists>q. acts = [EventSet q])
       \<or> (\<exists>code. code \<noteq> auth_code a
            \<and> acts = [PongExchange (own_location a) (make_pong e' b (own_location a) code)]))"
  proof (cases "req_dst ping \<noteq> None \<and> req_dst ping \<noteq> Some (own_location b)")
    case True
    with r v show ?thesis by (simp add: validated_def)
  next
    case nd: False
    show ?thesis
    proof (cases "req_src ping = Some (own_location b)")
      case True
      with nd r v have "async_reply b ping = (b', acts, fl)" by (auto simp: validated_def)
      from async_reply_peers [OF this] show ?thesis by blast
    next
      case False
      with nd r v n have d: "do_ping e' b ping = (b', acts, fl)"
        by (auto simp: validated_def dispatch_def)
      from do_ping_without_ack [of e' b ping, OF noack] d code rp show ?thesis
        by auto
    qed
  qed
  have f: "foldl (\<lambda>a' act. case act of
                     PongExchange l pong \<Rightarrow>
                       if l = own_location a then fst (answer_pong e a' pong) else a'
                   | _ \<Rightarrow> a') a acts = a"
    using shape rej by auto
  have "deliver_ping e a b ping = (a, b')"
    by (simp add: deliver_ping_def e'_def [symmetric] r f)
  with shape show ?thesis by (simp add: a_def b_def)
qed

lemma udp_proc_msg_ping:
  "udp_proc_msg e a (Some info) = Some (l, ping) \<Longrightarrow> \<exists>code. ping = make_ping e a l code"
  by (auto simp: udp_proc_msg_def split: sum.splits if_splits pyval.splits)

text \<open>
  With matching secrets the same round completes: each scheduler installs the other.
\<close>

lemma discovery_with_shared_secret:
  "map fst (peers (fst (discovery example_env example_node
       (other_node\<lparr>secret := Some ''s1'', auth_code := Some ''cds1''\<rparr>)))) = [(''10.0.0.2'', 6000)]
   \<and> map fst (peers (snd (discovery example_env example_node
       (other_node\<lparr>secret := Some ''s1'', auth_code := Some ''cds1''\<rparr>)))) = [(''10.0.0.1'', 5000)]"
  by (simp add: discovery_def udp_proc_msg_def ping_msg_def make_ping_def kw_item_def
      compute_auth_def is_ascii_def deliver_ping_def answer_pong_def tcp_task_msg_def validated_def
      dispatch_def do_ping_def do_pong_def ping_info_def make_pong_def install_def new_request_def
      example_env_def example_node_def other_node_def)

section \<open>Claims\<close>

text \<open>
  C1.  Containment does not hold on the code, at either verb, for relative paths that
  the sender's own check lets through: the receiver's only test is that the target, as a
  string, starts with \<^verbatim>\<open>dest_path_prefix\<close>.  \<^verbatim>\<open>del_file\<close> makes the test
  on the path before any normalisation, so a \<^verbatim>\<open>dest_path\<close> of \<^verbatim>\<open>..\<close> passes it:
  the file \<^verbatim>\<open>/tmp/victim\<close>, outside the prefix \<^verbatim>\<open>/tmp/asyncoro\<close>, is removed and
  the reply is \<open>0\<close>.  \<^verbatim>\<open>send_file\<close> normalises first, but a sibling directory whose
  name begins with the prefix's passes the test on strings: the directory
  \<^verbatim>\<open>/tmp/asyncoro_evil\<close> and a file in it are created and the replies are \<open>0\<close>.  In
  both cases the normalised target does not lie under the prefix.
\<close>

theorem escaping_dest_path_accepted:
  "\<not> dest_path_refused ''..'' \<and> \<not> dest_path_refused ''../asyncoro_evil''
   \<and> \<not> lies_under (dest_path_prefix victim_node) (del_file_target victim_node ''victim'' (PStr ''..''))
   \<and> tcp_task_msg example_env victim_node (Some escaping_del_file)
       = (victim_node\<lparr>fs := [([''tmp''], Dir), ([''tmp'', ''asyncoro''], Dir)]\<rparr>,
          [SendMsg (PInt 0)], Continue)
   \<and> \<not> lies_under (dest_path_prefix victim_node)
         (send_file_target example_env victim_node ''data'' (PStr ''../asyncoro_evil''))
   \<and> tcp_task_msg example_env victim_node (Some escaping_send_file)
       = (victim_node\<lparr>fs := fs victim_node @
             [([''tmp'', ''asyncoro_evil''], Dir),
              ([''tmp'', ''asyncoro_evil'', ''data''],
               File \<lparr>st_mode = 33188, st_size = 0, st_atime = Float 7 0, st_mtime = Float 8 0\<rparr> [])]\<rparr>,
          [SendMsg (PInt 0), SendMsg (PInt 0)], Continue)"
proof -
  have p: "dest_path_prefix victim_node = ''/tmp/asyncoro''"
    by (simp add: victim_node_def example_node_def)
  have 1: "\<not> lies_under (dest_path_prefix victim_node)
      (del_file_target victim_node ''victim'' (PStr ''..''))"
    by (simp add: escaping_del_file_target p lies_under_def path_defs)
  have 3: "\<not> lies_under (dest_path_prefix victim_node)
      (send_file_target example_env victim_node ''data'' (PStr ''../asyncoro_evil''))"
    by (simp add: escaping_send_file_target p lies_under_def path_defs)
  have a: "auth_code victim_node = Some ''abs1''" "own_location victim_node = own_location example_node"
    by (simp_all add: victim_node_def example_node_def)
  have 2: "tcp_task_msg example_env victim_node (Some escaping_del_file)
      = do_del_file example_env victim_node escaping_del_file"
    by (simp add: tcp_task_msg_def validated_def dispatch_def escaping_del_file_def new_request_def a)
  have 4: "tcp_task_msg example_env victim_node (Some escaping_send_file)
      = do_send_file example_env victim_node escaping_send_file"
    by (simp add: tcp_task_msg_def validated_def dispatch_def escaping_send_file_def new_request_def a)
  from relative_dest_path_not_refused
  have 0: "\<not> dest_path_refused ''..''" "\<not> dest_path_refused ''../asyncoro_evil''" by simp_all
  show ?thesis
    by (simp only: 0 1 3 2 4 escaping_del_file_removes escaping_send_file_creates) simp
qed

text \<open>
  C2.  Two schedulers whose secrets differ, each set up by \<^verbatim>\<open>__init__\<close>, and whose
  codes do not collide: under the signature of either, the digest with the one secret
  is not the digest with the other.  A request of any verb but \<^verbatim>\<open>ping\<close> that the
  one sends with the code it computes for the other is not executed: the other's
  dispatcher closes the connection, with nothing sent and nothing changed.  A \<^verbatim>\<open>ping\<close>
  of the one that is delivered to the other, whatever code it carries, installs nobody:
  the pong that answers it carries a code the first refuses, no \<^verbatim>\<open>ack\<close> comes back,
  and both peer tables are as before; so is a whole round of discovery.  The statement
  holds with the two schedulers exchanged.
\<close>

theorem auth_mismatch_installs_nobody:
  assumes sec: "sa \<noteq> sb"
    and nca: "no_collision e sga sa sb" and ncb: "no_collision e sgb sa sb"
  shows "(req_name req \<noteq> ''ping''
            \<and> compute_auth e sa (ping_msg e (init_secret e sb sgb b0)) = Inr (req_auth req)
          \<longrightarrow> tcp_task e (init_secret e sb sgb b0) (Some req # msgs)
                = (init_secret e sb sgb b0, [], Closed))
       \<and> (req_name ping = ''ping''
            \<and> map_of (req_kwargs ping) ''peer'' = Some (PLocation (own_location (init_secret e sa sga a0)))
            \<and> map_of (req_kwargs ping) ''signature''
                = Some (case signature (init_secret e sa sga a0) of None \<Rightarrow> PNone | Some x \<Rightarrow> PStr x)
          \<longrightarrow> fst (deliver_ping e (init_secret e sa sga a0) (init_secret e sb sgb b0) ping)
                = init_secret e sa sga a0
              \<and> peers (snd (deliver_ping e (init_secret e sa sga a0) (init_secret e sb sgb b0) ping))
                = peers (init_secret e sb sgb b0))
       \<and> fst (discovery e (init_secret e sa sga a0) (init_secret e sb sgb b0)) = init_secret e sa sga a0
       \<and> peers (snd (discovery e (init_secret e sa sga a0) (init_secret e sb sgb b0)))
           = peers (init_secret e sb sgb b0)"
proof -
  define a where "a = init_secret e sa sga a0"
  define b where "b = init_secret e sb sgb b0"
  have ncb': "no_collision e sgb sb sa"
    using ncb by (auto simp: no_collision_def split: option.splits)
  have 1: "req_name req \<noteq> ''ping'' \<and> compute_auth e sa (ping_msg e b) = Inr (req_auth req)
      \<longrightarrow> tcp_task e b (Some req # msgs) = (b, [], Closed)"
  proof (intro impI, elim conjE)
    assume n: "req_name req \<noteq> ''ping''" and c: "compute_auth e sa (ping_msg e b) = Inr (req_auth req)"
    have g: "map_of (ping_msg e b) ''signature''
        = Some (case signature (init_secret e sb sgb b0) of None \<Rightarrow> PNone | Some x \<Rightarrow> PStr x)"
      by (simp add: ping_msg_def b_def)
    from foreign_code_differs [OF ncb' sec [symmetric] g c] have "req_auth req \<noteq> auth_code b"
      by (simp add: b_def)
    with n show "tcp_task e b (Some req # msgs) = (b, [], Closed)"
      by (simp add: tcp_task_msg_def)
  qed
  have 2: "req_name pg = ''ping''
            \<and> map_of (req_kwargs pg) ''peer'' = Some (PLocation (own_location a))
            \<and> map_of (req_kwargs pg) ''signature''
                = Some (case signature a of None \<Rightarrow> PNone | Some x \<Rightarrow> PStr x)
          \<longrightarrow> fst (deliver_ping e a b pg) = a \<and> peers (snd (deliver_ping e a b pg)) = peers b" for pg
    using deliver_ping_rejected [OF nca sec, of pg a0 sgb b0] by (simp add: a_def b_def)
  have 3: "fst (discovery e a b) = a \<and> peers (snd (discovery e a b)) = peers b"
  proof (cases "udp_proc_msg e a (Some (ping_msg e b))")
    case None
    then show ?thesis by (simp add: discovery_def)
  next
    case (Some lp)
    obtain l pg where lp: "lp = (l, pg)" by (cases lp)
    from udp_proc_msg_ping Some lp obtain code where "pg = make_ping e a l code" by blast
    then have "req_name pg = ''ping''"
      "map_of (req_kwargs pg) ''peer'' = Some (PLocation (own_location a))"
      "map_of (req_kwargs pg) ''signature''
         = Some (case signature a of None \<Rightarrow> PNone | Some x \<Rightarrow> PStr x)"
      by (simp_all add: make_ping_def new_request_def)
    with 2 [of pg] have "fst (deliver_ping e a b pg) = a \<and> peers (snd (deliver_ping e a b pg)) = peers b"
      by simp
    with Some lp show ?thesis by (simp add: discovery_def)
  qed
  from 1 2 [of ping] 3 show ?thesis unfolding a_def b_def by blast
qed

theorem auth_mismatch_installs_nobody_witness:
  "sha1_hexdigest digest_env ''abs1'' = ''abs1000000000000000000000000000000000000''
   \<and> no_collision digest_env ''ab'' (Some ''s1'') (Some ''s2'')
   \<and> no_collision digest_env ''cd'' (Some ''s1'') (Some ''s2'')
   \<and> fst (discovery digest_env digest_node other_digest_node) = digest_node
   \<and> peers (snd (discovery digest_env digest_node other_digest_node)) = []
   \<and> tcp_task digest_env other_digest_node
       [Some (new_request ''send'' [(''coro'', PInt 7), (''message'', PStr ''hi'')] None
                (Some (own_location other_digest_node))
                (Some ''cds1000000000000000000000000000000000000'') None)]
       = (other_digest_node, [], Closed)"
proof -
  let ?send = "new_request ''send'' [(''coro'', PInt 7), (''message'', PStr ''hi'')] None
                (Some (own_location other_digest_node))
                (Some ''cds1000000000000000000000000000000000000'') None"
  have d: "sha1_hexdigest digest_env = (\<lambda>x. take 40 (x @ replicate 40 CHR ''0''))"
    by (simp add: digest_env_def)
  have h: "sha1_hexdigest digest_env ''abs1'' = ''abs1000000000000000000000000000000000000''"
    "sha1_hexdigest digest_env ''cds1'' = ''cds1000000000000000000000000000000000000''"
    by (simp_all add: d eval_nat_numeral)
  have nc: "no_collision digest_env ''ab'' (Some ''s1'') (Some ''s2'')"
    "no_collision digest_env ''cd'' (Some ''s1'') (Some ''s2'')"
    by (simp_all add: no_collision_def d eval_nat_numeral)
  have s: "Some ''s1'' \<noteq> Some ''s2''" by simp
  have c: "req_name ?send \<noteq> ''ping''
      \<and> compute_auth digest_env (Some ''s1'') (ping_msg digest_env other_digest_node) = Inr (req_auth ?send)"
    by (simp add: new_request_def compute_auth_def ping_msg_def is_ascii_def other_digest_node_def
        init_secret_def h)
  from auth_mismatch_installs_nobody [OF s nc, of ?send other_node "[]" _ example_node,
      folded digest_node_def other_digest_node_def] c
  have "tcp_task digest_env other_digest_node [Some ?send] = (other_digest_node, [], Closed)"
    "fst (discovery digest_env digest_node other_digest_node) = digest_node"
    "peers (snd (discovery digest_env digest_node other_digest_node)) = peers other_digest_node"
    by blast+
  moreover have "peers other_digest_node = []"
    by (simp add: other_digest_node_def init_secret_def other_node_def example_node_def)
  ultimately show ?thesis using h nc by simp
qed

text \<open>
  C3.  For every inbound message the dispatcher requires the request's code to equal the
  scheduler's own before it dispatches: on a mismatch the connection is closed with
  nothing sent, nothing changed and nothing more read, except that a request named
  \<^verbatim>\<open>ping\<close> goes on exactly as if its code had matched.
\<close>

theorem auth_gate:
  "(req_auth req \<noteq> auth_code s \<and> req_name req \<noteq> ''ping''
      \<longrightarrow> tcp_task_msg e s (Some req) = (s, [], Break)
          \<and> tcp_task e s (Some req # msgs) = (s, [], Closed))
   \<and> (req_auth req = auth_code s \<longrightarrow> tcp_task_msg e s (Some req) = validated e s req)
   \<and> (req_name req = ''ping''
      \<longrightarrow> tcp_task_msg e s (Some req) = validated e s req
          \<and> validated e s req = validated e s (req\<lparr>req_auth := auth_code s\<rparr>))"
proof -
  have a: "async_reply s (req\<lparr>req_auth := auth_code s\<rparr>) = async_reply s req"
    by (simp add: async_reply_def cong: option.case_cong)
  have i: "\<And>l c acts. install e s (req\<lparr>req_auth := auth_code s\<rparr>) l c acts = install e s req l c acts"
    by (simp add: install_def)
  have pi: "ping_info e s (req\<lparr>req_auth := auth_code s\<rparr>) = ping_info e s req"
    by (simp add: ping_info_def cong: sum.case_cong)
  have p: "do_ping e s (req\<lparr>req_auth := auth_code s\<rparr>) = do_ping e s req"
    by (simp add: do_ping_def pi i Let_def cong: sum.case_cong prod.case_cong pyval.case_cong if_cong)
  have "req_name req = ''ping'' \<Longrightarrow> validated e s req = validated e s (req\<lparr>req_auth := auth_code s\<rparr>)"
    by (simp add: validated_def dispatch_def a p)
  then show ?thesis
    by (simp add: tcp_task_msg_def)
qed

theorem auth_gate_witness:
  "tcp_task example_env example_node
     [Some (new_request ''send'' [(''coro'', PInt 7), (''message'', PStr ''hi'')] None
              (Some (own_location example_node)) (Some ''wrong'') None),
      Some (new_request ''send'' [(''coro'', PInt 7), (''message'', PStr ''hi'')] None
              (Some (own_location example_node)) (Some ''abs1'') None)]
     = (example_node, [], Closed)
   \<and> tcp_task_msg example_env example_node
       (Some (new_request ''send'' [(''coro'', PInt 7), (''message'', PStr ''hi'')] None
              (Some (own_location example_node)) (Some ''abs1'') None))
     = (example_node, [CoroSend 7 (PStr ''hi''), SendMsg (PInt 0)], Continue)
   \<and> tcp_task_msg example_env example_node
       (Some (new_request ''ping'' [] None None (Some ''wrong'') None))
     = validated example_env example_node
         ((new_request ''ping'' [] None None (Some ''wrong'') None)\<lparr>req_auth := auth_code example_node\<rparr>)"
proof -
  let ?bad = "new_request ''send'' [(''coro'', PInt 7), (''message'', PStr ''hi'')] None
              (Some (own_location example_node)) (Some ''wrong'') None"
  let ?good = "new_request ''send'' [(''coro'', PInt 7), (''message'', PStr ''hi'')] None
              (Some (own_location example_node)) (Some ''abs1'') None"
  let ?ping = "new_request ''ping'' [] None None (Some ''wrong'') None"
  have b: "req_auth ?bad \<noteq> auth_code example_node \<and> req_name ?bad \<noteq> ''ping''"
    by (simp add: new_request_def example_node_def)
  have g: "req_auth ?good = auth_code example_node"
    by (simp add: new_request_def example_node_def)
  have p: "req_name ?ping = ''ping''" by (simp add: new_request_def)
  have v: "validated example_env example_node ?good
      = (example_node, [CoroSend 7 (PStr ''hi''), SendMsg (PInt 0)], Continue)"
    by (simp add: validated_def dispatch_def do_send_def new_request_def example_node_def
        example_env_def kw_get_def kw_item_def replied_def)
  from auth_gate [of ?bad example_node example_env "[Some ?good]"] b
    auth_gate [of ?good example_node example_env "[]"] g
    auth_gate [of ?ping example_node example_env "[]"] p v
  show ?thesis by simp
qed

text \<open>
  C4.  For a \<^verbatim>\<open>send_file\<close> request addressed to this scheduler, with \<open>tgt\<close> its
  target: the response is \<open>-1\<close> when the file exceeds \<^verbatim>\<open>max_file_size\<close> (when that is
  set).  When the size and containment checks pass: if the target exists as a file with
  the sender's metadata (\<open>same_file\<close>: \<^verbatim>\<open>abs\<close> of the difference of the modification
  times, in double arithmetic, at most \<open>1\<close>; equal size; equal mode bits) the response
  is \<open>1\<close>; if it exists with other metadata and \<^verbatim>\<open>overwrite\<close> is false the response is
  the target's stat record; in both cases nothing changes.  Otherwise, and only then,
  the target is created (\<open>creates_target\<close>): when its directory cannot be made or the
  file cannot be opened the response is \<open>-1\<close>; when it can, the target is open and
  empty, the response is \<open>0\<close> and the data is copied.
\<close>

theorem send_file_preflight:
  assumes n: "req_name req = ''send_file''" and a: "req_auth req = auth_code s"
    and sd: "req_src req = None" "req_dst req = Some (own_location s)"
    and kw: "map_of (req_kwargs req) ''file'' = Some (PStr file)"
      "map_of (req_kwargs req) ''dest_path'' = Some dest_path"
      "map_of (req_kwargs req) ''stat_buf'' = Some (PStat stat_buf)"
    and ow: "map_of (req_kwargs req) ''overwrite'' = Some overwrite"
    and tgt: "tgt = send_file_target e s file dest_path"
  shows
    "((case max_file_size s of None \<Rightarrow> False | Some m \<Rightarrow> m \<noteq> 0 \<and> st_size stat_buf > m)
        \<longrightarrow> tcp_task_msg e s (Some req) = (s, [SendMsg (PInt (- 1))], Continue))
     \<and> (\<not> (case max_file_size s of None \<Rightarrow> False | Some m \<Rightarrow> m \<noteq> 0 \<and> st_size stat_buf > m)
          \<and> startswith tgt (dest_path_prefix s) \<longrightarrow>
          (os_path_isfile (fs s) (getcwd e) tgt \<longrightarrow>
             (\<exists>sbuf. os_stat (fs s) (getcwd e) tgt = Inr sbuf
                \<and> (same_file stat_buf sbuf
                     \<longrightarrow> tcp_task_msg e s (Some req) = (s, [SendMsg (PInt 1)], Continue))
                \<and> (\<not> same_file stat_buf sbuf \<and> \<not> truthy overwrite
                     \<longrightarrow> tcp_task_msg e s (Some req) = (s, [SendMsg (PStat sbuf)], Continue))
                \<and> (\<not> same_file stat_buf sbuf \<and> truthy overwrite
                     \<longrightarrow> creates_target e s req tgt stat_buf (tcp_task_msg e s (Some req)))))
          \<and> (\<not> os_path_isfile (fs s) (getcwd e) tgt
                \<longrightarrow> creates_target e s req tgt stat_buf (tcp_task_msg e s (Some req))))"
proof -
  have t: "tcp_task_msg e s (Some req) = do_send_file e s req"
    using n a sd by (simp add: tcp_task_msg_def validated_def dispatch_def)
  note u1 = do_send_file_resp [OF sd kw tgt]
  have zero: "send_file_check e s tgt stat_buf (req_kwargs req) = Inr (PInt 0) \<Longrightarrow>
      creates_target e s req tgt stat_buf (tcp_task_msg e s (Some req))"
    unfolding t by (rule do_send_file_zero [OF sd kw tgt])
  have big: "(case max_file_size s of None \<Rightarrow> False | Some m \<Rightarrow> m \<noteq> 0 \<and> st_size stat_buf > m)
      \<Longrightarrow> tcp_task_msg e s (Some req) = (s, [SendMsg (PInt (- 1))], Continue)"
  proof -
    assume "case max_file_size s of None \<Rightarrow> False | Some m \<Rightarrow> m \<noteq> 0 \<and> st_size stat_buf > m"
    then have "send_file_check e s tgt stat_buf (req_kwargs req) = Inr (PInt (- 1))"
      by (simp add: send_file_check_def)
    then show ?thesis unfolding t by (rule u1) simp
  qed
  have pass: "\<not> (case max_file_size s of None \<Rightarrow> False | Some m \<Rightarrow> m \<noteq> 0 \<and> st_size stat_buf > m)
      \<Longrightarrow> startswith tgt (dest_path_prefix s) \<Longrightarrow>
      send_file_check e s tgt stat_buf (req_kwargs req) =
        (if os_path_isfile (fs s) (getcwd e) tgt then
           (case os_stat (fs s) (getcwd e) tgt of
              Inl x \<Rightarrow> Inl x
            | Inr sbuf \<Rightarrow>
                if same_file stat_buf sbuf then Inr (PInt 1)
                else if \<not> truthy overwrite then Inr (PStat sbuf) else Inr (PInt 0))
         else Inr (PInt 0))"
    using ow by (auto simp: send_file_check_def kw_item_def split: sum.splits)
  {
    assume h: "\<not> (case max_file_size s of None \<Rightarrow> False | Some m \<Rightarrow> m \<noteq> 0 \<and> st_size stat_buf > m)"
      "startswith tgt (dest_path_prefix s)" "os_path_isfile (fs s) (getcwd e) tgt"
    from isfile_stat [OF h(3)] obtain sbuf where sb: "os_stat (fs s) (getcwd e) tgt = Inr sbuf" ..
    have c: "send_file_check e s tgt stat_buf (req_kwargs req) =
        (if same_file stat_buf sbuf then Inr (PInt 1)
         else if \<not> truthy overwrite then Inr (PStat sbuf) else Inr (PInt 0))"
      using pass [OF h(1,2)] h(3) sb by simp
    have 1: "same_file stat_buf sbuf
        \<longrightarrow> tcp_task_msg e s (Some req) = (s, [SendMsg (PInt 1)], Continue)"
      using c unfolding t by (auto intro: u1)
    have 2: "\<not> same_file stat_buf sbuf \<and> \<not> truthy overwrite
        \<longrightarrow> tcp_task_msg e s (Some req) = (s, [SendMsg (PStat sbuf)], Continue)"
      using c unfolding t by (auto intro: u1)
    have 3: "\<not> same_file stat_buf sbuf \<and> truthy overwrite
        \<longrightarrow> creates_target e s req tgt stat_buf (tcp_task_msg e s (Some req))"
      using c zero by simp
    from sb 1 2 3
    have "\<exists>sbuf. os_stat (fs s) (getcwd e) tgt = Inr sbuf
                \<and> (same_file stat_buf sbuf
                     \<longrightarrow> tcp_task_msg e s (Some req) = (s, [SendMsg (PInt 1)], Continue))
                \<and> (\<not> same_file stat_buf sbuf \<and> \<not> truthy overwrite
                     \<longrightarrow> tcp_task_msg e s (Some req) = (s, [SendMsg (PStat sbuf)], Continue))
                \<and> (\<not> same_file stat_buf sbuf \<and> truthy overwrite
                     \<longrightarrow> creates_target e s req tgt stat_buf (tcp_task_msg e s (Some req)))"
      by blast
  }
  note B = this
  {
    assume h: "\<not> (case max_file_size s of None \<Rightarrow> False | Some m \<Rightarrow> m \<noteq> 0 \<and> st_size stat_buf > m)"
      "startswith tgt (dest_path_prefix s)" "\<not> os_path_isfile (fs s) (getcwd e) tgt"
    have "send_file_check e s tgt stat_buf (req_kwargs req) = Inr (PInt 0)"
      using pass [OF h(1,2)] h(3) by simp
    from zero [OF this]
    have "creates_target e s req tgt stat_buf (tcp_task_msg e s (Some req))" .
  }
  note C = this
  from big B C show ?thesis by blast
qed

theorem send_file_preflight_witness:
  "tcp_task_msg example_env stocked_node
     (Some (send_file_request ''sub''
        \<lparr>st_mode = 33188, st_size = 3, st_atime = Float 7 0, st_mtime = Float 101 (- 1)\<rparr> False))
     = (stocked_node, [SendMsg (PInt 1)], Continue)
   \<and> tcp_task_msg example_env stocked_node
     (Some (send_file_request ''sub''
        \<lparr>st_mode = 33188, st_size = 4, st_atime = Float 7 0, st_mtime = Float 80 0\<rparr> False))
     = (stocked_node,
        [SendMsg (PStat \<lparr>st_mode = 33188, st_size = 3, st_atime = Float 50 0, st_mtime = Float 50 0\<rparr>)],
        Continue)
   \<and> tcp_task_msg example_env (stocked_node\<lparr>max_file_size := Some 2\<rparr>)
     (Some (send_file_request ''sub''
        \<lparr>st_mode = 33188, st_size = 3, st_atime = Float 7 0, st_mtime = Float 101 (- 1)\<rparr> False))
     = (stocked_node\<lparr>max_file_size := Some 2\<rparr>, [SendMsg (PInt (- 1))], Continue)
   \<and> tcp_task_msg (example_env\<lparr>payload := \<lambda>r. ''abc''\<rparr>) example_node
     (Some (send_file_request ''sub''
        \<lparr>st_mode = 33188, st_size = 3, st_atime = Float 7 0, st_mtime = Float 8 0\<rparr> False))
     = (example_node\<lparr>fs := [([''tmp''], Dir), ([''tmp'', ''asyncoro''], Dir),
                             ([''tmp'', ''asyncoro'', ''sub''], Dir),
                             ([''tmp'', ''asyncoro'', ''sub'', ''data''],
                              File \<lparr>st_mode = 33188, st_size = 3, st_atime = Float 7 0,
                                     st_mtime = Float 8 0\<rparr> ''abc'')]\<rparr>,
        [SendMsg (PInt 0), SendMsg (PInt 0)], Continue)
   \<and> tcp_task_msg example_env stocked_node
     (Some (send_file_request ''sub/data''
        \<lparr>st_mode = 33188, st_size = 3, st_atime = Float 7 0, st_mtime = Float 8 0\<rparr> False))
     = (stocked_node, [SendMsg (PInt (- 1))], Continue)"
proof -
  let ?same = "\<lparr>st_mode = 33188, st_size = 3, st_atime = Float 7 0, st_mtime = Float 101 (- 1)\<rparr>"
  let ?other = "\<lparr>st_mode = 33188, st_size = 4, st_atime = Float 7 0, st_mtime = Float 80 0\<rparr>"
  let ?there = "\<lparr>st_mode = 33188, st_size = 3, st_atime = Float 50 0, st_mtime = Float 50 0\<rparr>"
  let ?new = "\<lparr>st_mode = 33188, st_size = 3, st_atime = Float 7 0, st_mtime = Float 8 0\<rparr>"
  let ?e = "example_env\<lparr>payload := \<lambda>r. ''abc''\<rparr>"
  have hn: "req_name (send_file_request dp sb False) = ''send_file''" for dp sb
    by (simp add: send_file_request_def new_request_def)
  have ha: "req_auth (send_file_request dp sb False) = auth_code (stocked_node\<lparr>max_file_size := m\<rparr>)"
    for dp sb m
    by (simp add: send_file_request_def new_request_def stocked_node_def example_node_def)
  have ha': "req_auth (send_file_request dp sb False) = auth_code example_node" for dp sb
    by (simp add: send_file_request_def new_request_def example_node_def)
  have hs: "req_src (send_file_request dp sb False) = None" for dp sb
    by (simp add: send_file_request_def new_request_def)
  have hd: "req_dst (send_file_request dp sb False)
      = Some (own_location (stocked_node\<lparr>max_file_size := m\<rparr>))" for dp sb m
    by (simp add: send_file_request_def new_request_def stocked_node_def example_node_def)
  have hd': "req_dst (send_file_request dp sb False) = Some (own_location example_node)" for dp sb
    by (simp add: send_file_request_def new_request_def)
  have hk: "map_of (req_kwargs (send_file_request dp sb False)) ''file'' = Some (PStr ''data'')"
    "map_of (req_kwargs (send_file_request dp sb False)) ''dest_path'' = Some (PStr dp)"
    "map_of (req_kwargs (send_file_request dp sb False)) ''stat_buf'' = Some (PStat sb)"
    "map_of (req_kwargs (send_file_request dp sb False)) ''overwrite'' = Some (PBool False)"
    for dp sb
    by (simp_all add: send_file_request_def new_request_def)
  have tg: "''/tmp/asyncoro/sub/data''
      = send_file_target example_env (stocked_node\<lparr>max_file_size := m\<rparr>) ''data'' (PStr ''sub'')" for m
    using example_target by (simp add: send_file_target_def stocked_node_def example_node_def)
  have same: "same_file ?same ?there" "\<not> same_file ?other ?there"
    by (simp_all add: same_file_def S_IMODE_def round_to_double_def Let_def)
  have st: "stocked_node\<lparr>max_file_size := None\<rparr> = stocked_node"
    by (simp add: stocked_node_def example_node_def)
  have pre: "\<not> (case max_file_size stocked_node of None \<Rightarrow> False | Some m \<Rightarrow> m \<noteq> 0 \<and> st_size sb > m)
      \<and> startswith ''/tmp/asyncoro/sub/data'' (dest_path_prefix stocked_node)" for sb :: stat_result
    by (simp add: stocked_node_def example_node_def startswith_def)
  note h1 = send_file_preflight [where s = stocked_node and e = example_env
      and req = "send_file_request ''sub'' ?same False" and tgt = "''/tmp/asyncoro/sub/data''",
      OF hn ha [where m = None, unfolded st] hs hd [where m = None, unfolded st] hk
         tg [of None, unfolded st]]
  from h1 pre [of ?same] example_target_isfile
  obtain sbuf where s1: "os_stat (fs stocked_node) (getcwd example_env) ''/tmp/asyncoro/sub/data'' = Inr sbuf"
    "same_file ?same sbuf \<longrightarrow> tcp_task_msg example_env stocked_node
        (Some (send_file_request ''sub'' ?same False)) = (stocked_node, [SendMsg (PInt 1)], Continue)"
    by blast
  from s1(1) example_target_stat have "sbuf = ?there" by simp
  with s1(2) same have 1: "tcp_task_msg example_env stocked_node
        (Some (send_file_request ''sub'' ?same False)) = (stocked_node, [SendMsg (PInt 1)], Continue)"
    by simp
  note h2 = send_file_preflight [where s = stocked_node and e = example_env
      and req = "send_file_request ''sub'' ?other False" and tgt = "''/tmp/asyncoro/sub/data''",
      OF hn ha [where m = None, unfolded st] hs hd [where m = None, unfolded st] hk
         tg [of None, unfolded st]]
  from h2 pre [of ?other] example_target_isfile
  obtain sbuf' where s2: "os_stat (fs stocked_node) (getcwd example_env) ''/tmp/asyncoro/sub/data'' = Inr sbuf'"
    "\<not> same_file ?other sbuf' \<and> \<not> truthy (PBool False) \<longrightarrow> tcp_task_msg example_env stocked_node
        (Some (send_file_request ''sub'' ?other False)) = (stocked_node, [SendMsg (PStat sbuf')], Continue)"
    by blast
  from s2(1) example_target_stat have "sbuf' = ?there" by simp
  with s2(2) same have 2: "tcp_task_msg example_env stocked_node
        (Some (send_file_request ''sub'' ?other False)) = (stocked_node, [SendMsg (PStat ?there)], Continue)"
    by simp
  have big: "case max_file_size (stocked_node\<lparr>max_file_size := Some 2\<rparr>) of None \<Rightarrow> False
      | Some m \<Rightarrow> m \<noteq> 0 \<and> st_size ?same > m"
    by simp
  note h3 = send_file_preflight [where s = "stocked_node\<lparr>max_file_size := Some 2\<rparr>" and e = example_env
      and req = "send_file_request ''sub'' ?same False" and tgt = "''/tmp/asyncoro/sub/data''",
      OF hn ha hs hd hk tg]
  from h3 big
  have 3: "tcp_task_msg example_env (stocked_node\<lparr>max_file_size := Some 2\<rparr>)
        (Some (send_file_request ''sub'' ?same False))
      = (stocked_node\<lparr>max_file_size := Some 2\<rparr>, [SendMsg (PInt (- 1))], Continue)"
    by blast
  let ?fs1 = "[([''tmp''], Dir), ([''tmp'', ''asyncoro''], Dir), ([''tmp'', ''asyncoro'', ''sub''], Dir)]"
  let ?fd = "[''tmp'', ''asyncoro'', ''sub'', ''data'']"
  let ?fs2 = "[([''tmp''], Dir), ([''tmp'', ''asyncoro''], Dir), ([''tmp'', ''asyncoro'', ''sub''], Dir),
      (?fd, File \<lparr>st_mode = 33188, st_size = 0, st_atime = Float 100 0, st_mtime = Float 100 0\<rparr> [])]"
  let ?fs3 = "[([''tmp''], Dir), ([''tmp'', ''asyncoro''], Dir), ([''tmp'', ''asyncoro'', ''sub''], Dir),
      (?fd, File ?new ''abc'')]"
  let ?fs5 = "[([''tmp''], Dir), ([''tmp'', ''asyncoro''], Dir), ([''tmp'', ''asyncoro'', ''sub''], Dir),
      (?fd, File ?there ''abc'')]"
  have c4: "getcwd ?e = ''/''" "new_file_mode ?e = 33188" "clock ?e = Float 100 0"
    "payload ?e = (\<lambda>r. ''abc'')" "max_file_size example_node = None"
    "dest_path_prefix example_node = ''/tmp/asyncoro''"
    "fs example_node = [([''tmp''], Dir), ([''tmp'', ''asyncoro''], Dir)]"
    by (simp_all add: example_env_def example_node_def)
  have tg4: "''/tmp/asyncoro/sub/data'' = send_file_target ?e example_node ''data'' (PStr ''sub'')"
    by (simp add: send_file_target_def path_defs c4)
  have dn4: "posix_dirname ''/tmp/asyncoro/sub/data'' = ''/tmp/asyncoro/sub''"
    by (simp add: path_defs)
  have f4: "\<not> os_path_isfile [([''tmp''], Dir), ([''tmp'', ''asyncoro''], Dir)] ''/'' ''/tmp/asyncoro/sub/data''"
    "\<not> os_path_isdir [([''tmp''], Dir), ([''tmp'', ''asyncoro''], Dir)] ''/'' ''/tmp/asyncoro/sub''"
    "os_makedirs [([''tmp''], Dir), ([''tmp'', ''asyncoro''], Dir)] ''/'' ''/tmp/asyncoro/sub'' = (?fs1, True)"
    "open_wb 33188 (Float 100 0) ?fs1 ''/'' ''/tmp/asyncoro/sub/data'' = Some (?fs2, ?fd)"
    by (simp_all add: fs_defs path_defs)
  have l4: "recv_loop ?fs2 ?fd ''abc'' 3 0
      = ([([''tmp''], Dir), ([''tmp'', ''asyncoro''], Dir), ([''tmp'', ''asyncoro'', ''sub''], Dir),
          (?fd, File \<lparr>st_mode = 33188, st_size = 3, st_atime = Float 100 0,
                        st_mtime = Float 100 0\<rparr> ''abc'')], 3)"
    by (subst recv_loop.simps, simp add: fs_defs, subst recv_loop.simps, simp)
  have r4: "receive_file ?e example_node req ''/tmp/asyncoro/sub/data'' ?new ?fs2 ?fd
      = (example_node\<lparr>fs := ?fs3\<rparr>, [SendMsg (PInt 0)], Continue)" for req
    by (simp add: receive_file_def c4 l4 fs_defs path_defs S_IMODE_def)
  note h4 = send_file_preflight [where s = example_node and e = ?e
      and req = "send_file_request ''sub'' ?new False" and tgt = "''/tmp/asyncoro/sub/data''",
      OF hn ha' hs hd' hk tg4]
  from h4 f4(1)
  have "creates_target ?e example_node (send_file_request ''sub'' ?new False)
      ''/tmp/asyncoro/sub/data'' ?new
      (tcp_task_msg ?e example_node (Some (send_file_request ''sub'' ?new False)))"
    by (simp add: c4 startswith_def)
  then have 4: "tcp_task_msg ?e example_node (Some (send_file_request ''sub'' ?new False))
      = (example_node\<lparr>fs := ?fs3\<rparr>, [SendMsg (PInt 0), SendMsg (PInt 0)], Continue)"
    by (simp add: creates_target_def Let_def c4 dn4 f4 r4 after_sending_def)
  have c5: "getcwd example_env = ''/''" "max_file_size stocked_node = None"
    "dest_path_prefix stocked_node = ''/tmp/asyncoro''"
    "fs stocked_node = ?fs5"
    by (simp_all add: example_env_def stocked_node_def example_node_def)
  have tg5: "''/tmp/asyncoro/sub/data/data''
      = send_file_target example_env stocked_node ''data'' (PStr ''sub/data'')"
    by (simp add: send_file_target_def path_defs c5)
  have dn5: "posix_dirname ''/tmp/asyncoro/sub/data/data'' = ''/tmp/asyncoro/sub/data''"
    by (simp add: path_defs)
  have f5: "\<not> os_path_isfile ?fs5 ''/'' ''/tmp/asyncoro/sub/data/data''"
    "\<not> os_path_isdir ?fs5 ''/'' ''/tmp/asyncoro/sub/data''"
    "os_makedirs ?fs5 ''/'' ''/tmp/asyncoro/sub/data''
       = (?fs5, False)"
    by (simp_all add: fs_defs path_defs)
  have st5: "stocked_node\<lparr>fs := ?fs5\<rparr> = stocked_node"
    by (simp add: stocked_node_def)
  note h5 = send_file_preflight [where s = stocked_node and e = example_env
      and req = "send_file_request ''sub/data'' ?new False" and tgt = "''/tmp/asyncoro/sub/data/data''",
      OF hn ha [where m = None, unfolded st] hs hd [where m = None, unfolded st] hk tg5]
  from h5 f5(1)
  have "creates_target example_env stocked_node (send_file_request ''sub/data'' ?new False)
      ''/tmp/asyncoro/sub/data/data'' ?new
      (tcp_task_msg example_env stocked_node (Some (send_file_request ''sub/data'' ?new False)))"
    by (simp add: c5 startswith_def)
  then have 5: "tcp_task_msg example_env stocked_node (Some (send_file_request ''sub/data'' ?new False))
      = (stocked_node, [SendMsg (PInt (- 1))], Continue)"
    by (simp add: creates_target_def Let_def c5 dn5 f5 st5)
  from 1 2 3 4 5 show ?thesis by blast
qed

text \<open>
  C5.  For a request the worker of a peer takes from its queue:
  when there is no connection and connecting fails, the request's reply is set to
  \<^verbatim>\<open>None\<close>, its event (when it has one) is set, the peer is left without a
  connection and the worker goes on with the rest of the queue;
  when the exchange ends in a socket error, a timeout or any other exception, the
  connection is closed, the reply is set to \<^verbatim>\<open>None\<close>;
  and in every case, success included, the event of the request is set when it has one.
\<close>

theorem req_proc_failures:
  assumes q: "peer_reqs self = req # rest"
  shows "(\<not> peer_conn self \<and> \<not> fst (net i) \<longrightarrow>
            (\<exists>t. req_proc net i self =
               (case req_proc net (Suc i) (self\<lparr>peer_reqs := rest, peer_conn := False\<rparr>) of
                  (p, handled, t') \<Rightarrow>
                    (p, req\<lparr>req_reply := PNone, req_event := signal (req_event req)\<rparr> # handled,
                     t @ t')) \<and> SockClose \<notin> set t))
       \<and> ((peer_conn self \<or> fst (net i)) \<and> (\<forall>v. snd (net i) \<noteq> Replied v) \<longrightarrow>
            (\<exists>t. req_proc net i self =
               (case req_proc net (Suc i) (self\<lparr>peer_reqs := rest, peer_conn := False\<rparr>) of
                  (p, handled, t') \<Rightarrow>
                    (p, req\<lparr>req_auth := peer_auth self, req_reply := PNone,
                           req_event := signal (req_event req)\<rparr> # handled,
                     t @ t')) \<and> last t = SockClose))
       \<and> (\<exists>r handled. fst (snd (req_proc net i self)) = r # handled
             \<and> req_event r = signal (req_event req)
             \<and> (req_event req \<noteq> None \<longrightarrow> req_event r = Some True))"
proof -
  have ev: "req_event req \<noteq> None \<Longrightarrow> signal (req_event req) = Some True"
    by (auto simp: signal_def)
  have unf: "req_proc net i self =
      (case req_step (net i) (self\<lparr>peer_reqs := rest\<rparr>) req of
         (self', req', t) \<Rightarrow>
           (case req_proc net (Suc i) self' of (p, handled, t') \<Rightarrow> (p, req' # handled, t @ t')))"
    by (subst req_proc.simps) (simp add: q)
  have a: "\<not> peer_conn self \<Longrightarrow> \<not> fst (net i) \<Longrightarrow>
      req_step (net i) (self\<lparr>peer_reqs := rest\<rparr>) req =
        (self\<lparr>peer_reqs := rest, peer_conn := False\<rparr>,
         req\<lparr>req_reply := PNone, req_event := signal (req_event req)\<rparr>,
         (if req_timeout req \<noteq> None \<and> req_timeout req \<noteq> Some 0
          then [SockSetTimeout (req_timeout req)] else []) @ [SockConnect (peer_location self)])"
    by (simp add: req_step_def Let_def)
  have b: "(peer_conn self \<or> fst (net i)) \<Longrightarrow> \<forall>v. snd (net i) \<noteq> Replied v \<Longrightarrow>
      \<exists>t. req_step (net i) (self\<lparr>peer_reqs := rest\<rparr>) req =
        (self\<lparr>peer_reqs := rest, peer_conn := False\<rparr>,
         req\<lparr>req_auth := peer_auth self, req_reply := PNone, req_event := signal (req_event req)\<rparr>,
         t) \<and> last t = SockClose"
    by (cases "snd (net i)") (auto simp: req_step_def exchange_step_def Let_def)
  have c: "\<exists>p r t. req_step (net i) (self\<lparr>peer_reqs := rest\<rparr>) req = (p, r, t)
      \<and> req_event r = signal (req_event req)"
    by (cases "snd (net i)") (auto simp: req_step_def exchange_step_def Let_def)
  have 1: "\<not> peer_conn self \<and> \<not> fst (net i) \<longrightarrow>
            (\<exists>t. req_proc net i self =
               (case req_proc net (Suc i) (self\<lparr>peer_reqs := rest, peer_conn := False\<rparr>) of
                  (p, handled, t') \<Rightarrow>
                    (p, req\<lparr>req_reply := PNone, req_event := signal (req_event req)\<rparr> # handled,
                     t @ t')) \<and> SockClose \<notin> set t)"
  proof (intro impI, elim conjE)
    assume h: "\<not> peer_conn self" "\<not> fst (net i)"
    show "\<exists>t. req_proc net i self =
               (case req_proc net (Suc i) (self\<lparr>peer_reqs := rest, peer_conn := False\<rparr>) of
                  (p, handled, t') \<Rightarrow>
                    (p, req\<lparr>req_reply := PNone, req_event := signal (req_event req)\<rparr> # handled,
                     t @ t')) \<and> SockClose \<notin> set t"
      by (rule exI [where x = "(if req_timeout req \<noteq> None \<and> req_timeout req \<noteq> Some 0
          then [SockSetTimeout (req_timeout req)] else []) @ [SockConnect (peer_location self)]"])
        (simp add: unf a [OF h])
  qed
  have 2: "(peer_conn self \<or> fst (net i)) \<and> (\<forall>v. snd (net i) \<noteq> Replied v) \<longrightarrow>
            (\<exists>t. req_proc net i self =
               (case req_proc net (Suc i) (self\<lparr>peer_reqs := rest, peer_conn := False\<rparr>) of
                  (p, handled, t') \<Rightarrow>
                    (p, req\<lparr>req_auth := peer_auth self, req_reply := PNone,
                           req_event := signal (req_event req)\<rparr> # handled,
                     t @ t')) \<and> last t = SockClose)"
  proof (intro impI, elim conjE)
    assume h: "peer_conn self \<or> fst (net i)" "\<forall>v. snd (net i) \<noteq> Replied v"
    from b [OF h] obtain t where t: "req_step (net i) (self\<lparr>peer_reqs := rest\<rparr>) req =
        (self\<lparr>peer_reqs := rest, peer_conn := False\<rparr>,
         req\<lparr>req_auth := peer_auth self, req_reply := PNone, req_event := signal (req_event req)\<rparr>,
         t)" "last t = SockClose" by blast
    show "\<exists>t. req_proc net i self =
               (case req_proc net (Suc i) (self\<lparr>peer_reqs := rest, peer_conn := False\<rparr>) of
                  (p, handled, t') \<Rightarrow>
                    (p, req\<lparr>req_auth := peer_auth self, req_reply := PNone,
                           req_event := signal (req_event req)\<rparr> # handled,
                     t @ t')) \<and> last t = SockClose"
      by (rule exI [where x = t]) (simp add: unf t)
  qed
  from c obtain p r t where s: "req_step (net i) (self\<lparr>peer_reqs := rest\<rparr>) req = (p, r, t)"
    "req_event r = signal (req_event req)" by blast
  have 3: "\<exists>r handled. fst (snd (req_proc net i self)) = r # handled
             \<and> req_event r = signal (req_event req)
             \<and> (req_event req \<noteq> None \<longrightarrow> req_event r = Some True)"
    using s ev by (auto simp: unf split: prod.splits)
  from 1 2 3 show ?thesis by blast
qed

theorem req_proc_failures_witness:
  "(\<exists>r handled. fst (snd (req_proc (\<lambda>i. (False, OtherError)) 0 example_peer)) = r # handled
       \<and> req_reply r = PNone \<and> req_event r = Some True \<and> req_auth r = None)
   \<and> (\<exists>r handled. fst (snd (req_proc (\<lambda>i. (True, SocketTimeout)) 0 example_peer)) = r # handled
       \<and> req_reply r = PNone \<and> req_event r = Some True \<and> req_auth r = Some ''cds1'')"
proof -
  let ?r1 = "(new_request ''send'' [(''coro'', PInt 3), (''message'', PStr ''m1'')] None
            (Some \<lparr>addr = ''10.0.0.2'', port = 6000\<rparr>) None None)\<lparr>req_event := Some False\<rparr>"
  let ?r2 = "new_request ''ping'' [] None (Some \<lparr>addr = ''10.0.0.2'', port = 6000\<rparr>) None (Some 1)"
  have q: "peer_reqs example_peer = ?r1 # [?r2]" by (simp add: example_peer_def)
  have c: "\<not> peer_conn example_peer" by (simp add: example_peer_def)
  have a: "peer_auth example_peer = Some ''cds1''" by (simp add: example_peer_def)
  have s: "signal (req_event ?r1) = Some True" by (simp add: signal_def)
  from req_proc_failures [OF q, of "\<lambda>i. (False, OtherError)" 0] c
  obtain t where "req_proc (\<lambda>i. (False, OtherError)) 0 example_peer =
      (case req_proc (\<lambda>i. (False, OtherError)) (Suc 0) (example_peer\<lparr>peer_reqs := [?r2], peer_conn := False\<rparr>) of
         (p, handled, t') \<Rightarrow>
           (p, ?r1\<lparr>req_reply := PNone, req_event := signal (req_event ?r1)\<rparr> # handled, t @ t'))"
    by auto
  then have 1: "\<exists>r handled. fst (snd (req_proc (\<lambda>i. (False, OtherError)) 0 example_peer)) = r # handled
       \<and> req_reply r = PNone \<and> req_event r = Some True \<and> req_auth r = None"
    by (simp add: signal_def new_request_def split: prod.splits)
  from req_proc_failures [OF q, of "\<lambda>i. (True, SocketTimeout)" 0]
  obtain t where "req_proc (\<lambda>i. (True, SocketTimeout)) 0 example_peer =
      (case req_proc (\<lambda>i. (True, SocketTimeout)) (Suc 0) (example_peer\<lparr>peer_reqs := [?r2], peer_conn := False\<rparr>) of
         (p, handled, t') \<Rightarrow>
           (p, ?r1\<lparr>req_auth := peer_auth example_peer, req_reply := PNone,
                   req_event := signal (req_event ?r1)\<rparr> # handled, t @ t'))"
    by auto
  then have 2: "\<exists>r handled. fst (snd (req_proc (\<lambda>i. (True, SocketTimeout)) 0 example_peer)) = r # handled
       \<and> req_reply r = PNone \<and> req_event r = Some True \<and> req_auth r = Some ''cds1''"
    by (simp add: signal_def a new_request_def split: prod.splits)
  from 1 2 show ?thesis by blast
qed

text \<open>
  C6.  A message that passed the checks of its code and destination and whose
  \<^verbatim>\<open>src\<close> is this scheduler's own location is treated as the reply to a pending
  request: the entry under its id is popped from \<^verbatim>\<open>_requests\<close>, the reply is copied
  into the stored request, that request's event is set, and the connection is closed.
  When there is no entry under the id, the message is ignored and the connection
  closed: nothing is sent and the state does not change.  (A stored request always has
  an event: it is installed together with one.)
\<close>

theorem async_reply_resolves:
  assumes "req_auth reply = auth_code s \<or> req_name reply = ''ping''"
    and "req_dst reply = None \<or> req_dst reply = Some (own_location s)"
    and "req_src reply = Some (own_location s)"
  shows "(req_id reply = Some i \<and> map_of (requests s) i = Some req \<and> req_event req \<noteq> None
            \<longrightarrow> tcp_task e s (Some reply # msgs)
                 = (s\<lparr>requests := AList.delete i (requests s)\<rparr>,
                    [EventSet (req\<lparr>req_reply := req_reply reply, req_event := Some True\<rparr>)], Closed)
                \<and> map_of (AList.delete i (requests s)) i = None)
       \<and> ((req_id reply = None \<or> (req_id reply = Some i \<and> map_of (requests s) i = None))
            \<longrightarrow> tcp_task e s (Some reply # msgs) = (s, [], Closed))"
proof -
  from assms have t: "tcp_task_msg e s (Some reply) = async_reply s reply"
    by (auto simp: tcp_task_msg_def validated_def)
  show ?thesis
    by (auto simp: t async_reply_def delete_conv')
qed

theorem async_reply_resolves_witness:
  "tcp_task example_env waiting_node
     [Some ((new_request ''locate_peer'' [(''name'', PStr ''beta'')]
               (Some (own_location example_node)) None (Some ''abs1'') None)
             \<lparr>req_id := Some 41, req_reply := PLocation \<lparr>addr = ''10.0.0.2'', port = 6000\<rparr>\<rparr>)]
   = (waiting_node\<lparr>requests := []\<rparr>,
      [EventSet ((new_request ''locate_peer'' [(''name'', PStr ''beta'')]
                    (Some (own_location example_node)) None None None)
                  \<lparr>req_event := Some True, req_id := Some 41,
                    req_reply := PLocation \<lparr>addr = ''10.0.0.2'', port = 6000\<rparr>\<rparr>)],
      Closed)
   \<and> tcp_task example_env waiting_node
     [Some ((new_request ''locate_peer'' [(''name'', PStr ''beta'')]
               (Some (own_location example_node)) None (Some ''abs1'') None)
             \<lparr>req_id := Some 42, req_reply := PLocation \<lparr>addr = ''10.0.0.2'', port = 6000\<rparr>\<rparr>)]
   = (waiting_node, [], Closed)"
proof -
  let ?r = "\<lambda>i. (new_request ''locate_peer'' [(''name'', PStr ''beta'')]
               (Some (own_location example_node)) None (Some ''abs1'') None)
             \<lparr>req_id := Some i, req_reply := PLocation \<lparr>addr = ''10.0.0.2'', port = 6000\<rparr>\<rparr>"
  let ?q = "(new_request ''locate_peer'' [(''name'', PStr ''beta'')]
                (Some (own_location example_node)) None None None)
               \<lparr>req_event := Some False, req_id := Some 41\<rparr>"
  have a: "req_auth (?r i) = auth_code waiting_node \<or> req_name (?r i) = ''ping''" for i
    by (simp add: new_request_def waiting_node_def example_node_def)
  have d: "req_dst (?r i) = None \<or> req_dst (?r i) = Some (own_location waiting_node)" for i
    by (simp add: new_request_def)
  have c: "req_src (?r i) = Some (own_location waiting_node)" for i
    by (simp add: new_request_def waiting_node_def)
  have h1: "req_id (?r 41) = Some 41 \<and> map_of (requests waiting_node) 41 = Some ?q \<and> req_event ?q \<noteq> None"
    by (simp add: waiting_node_def)
  have h2: "req_id (?r 42) = None \<or> (req_id (?r 42) = Some 42 \<and> map_of (requests waiting_node) 42 = None)"
    by (simp add: waiting_node_def)
  from async_reply_resolves [OF a d c, where i = 41 and req = ?q and e = example_env and msgs = "[]"] h1
  have r1: "tcp_task example_env waiting_node [Some (?r 41)]
      = (waiting_node\<lparr>requests := AList.delete 41 (requests waiting_node)\<rparr>,
         [EventSet (?q\<lparr>req_reply := req_reply (?r 41), req_event := Some True\<rparr>)], Closed)"
    by blast
  from async_reply_resolves [OF a d c, where i = 42 and e = example_env and msgs = "[]"] h2
  have r2: "tcp_task example_env waiting_node [Some (?r 42)] = (waiting_node, [], Closed)"
    by blast
  show ?thesis
    unfolding r1 r2 by (simp add: new_request_def waiting_node_def example_node_def)
qed

text \<open>
  C7.  Serialising a \<^verbatim>\<open>_NetRequest\<close> and deserialising the result yields an object
  that agrees with the original on every enumerated envelope field (name, kwargs, src,
  dst, auth, id, reply, timeout); the event slot is not part of the wire state and is
  left unassigned on the receiver.  The serialiser is assumed to read back the state
  dictionary it wrote, and the request to have its eight wire fields assigned (as
  \<^verbatim>\<open>__init__\<close> does).
\<close>

theorem NetRequest_roundtrip:
  assumes rt: "\<And>st. loads (dumps st) = Some st"
    and fields: "\<forall>k \<in> set state_keys. req k \<noteq> None"
  shows "\<exists>msg req'. serialize_req dumps req = Inr msg \<and> unserialize_req loads msg = Inr req'
           \<and> (\<forall>k \<in> set state_keys. req' k = req k) \<and> req' ''event'' = None"
proof -
  from fields obtain v1 v2 v3 v4 v5 v6 v7 v8 where v:
    "req ''name'' = Some v1" "req ''kwargs'' = Some v2" "req ''src'' = Some v3"
    "req ''dst'' = Some v4" "req ''auth'' = Some v5" "req ''id'' = Some v6"
    "req ''reply'' = Some v7" "req ''timeout'' = Some v8"
    by (auto simp: state_keys_def)
  have g: "getstate req = Inr [(''name'', v1), (''kwargs'', v2), (''src'', v3), (''dst'', v4),
             (''auth'', v5), (''id'', v6), (''reply'', v7), (''timeout'', v8)]"
    by (simp add: getstate_def state_keys_def getattr_def v)
  show ?thesis
    by (simp add: serialize_req_def unserialize_req_def g rt setattr_def NetRequest_slots_def
        state_keys_def v)
qed

theorem NetRequest_roundtrip_witness:
  "\<exists>msg req'. serialize_req (\<lambda>st. st) (NetRequest_init ''None'' ''ping'' ''{}'' ''None'' ''None'' ''None'' ''None'')
        = Inr msg
     \<and> unserialize_req Some msg = Inr req'
     \<and> req' ''name'' = Some ''ping'' \<and> req' ''timeout'' = Some ''None'' \<and> req' ''event'' = None"
proof -
  define r :: "string pyobj"
    where "r = NetRequest_init ''None'' ''ping'' ''{}'' ''None'' ''None'' ''None'' ''None''"
  have f: "\<forall>k \<in> set state_keys. r k \<noteq> None"
    by (simp add: state_keys_def NetRequest_init_def r_def)
  have rt: "\<And>st :: (string \<times> string) list. Some ((\<lambda>st. st) st) = Some st" by simp
  from NetRequest_roundtrip [of Some "\<lambda>st. st" r, OF rt f]
  obtain msg req' where m: "serialize_req (\<lambda>st. st) r = Inr msg"
    "unserialize_req Some msg = Inr req'"
    "\<forall>k \<in> set state_keys. req' k = r k" "req' ''event'' = None"
    by blast
  from m(3) have "req' ''name'' = r ''name''" "req' ''timeout'' = r ''timeout''"
    by (simp_all add: state_keys_def)
  then have "req' ''name'' = Some ''ping''" "req' ''timeout'' = Some ''None''"
    by (simp_all add: r_def NetRequest_init_def)
  with m show ?thesis unfolding r_def by blast
qed

text \<open>
  C8.  The specification promises a reply with the own location whenever the name asked
  for is the scheduler's.  The code sends the asynchronous reply only to a \<^verbatim>\<open>src\<close>
  that is in the peer table: a request whose name matches and whose \<^verbatim>\<open>src\<close> is not
  a known peer gets no reply at all.
\<close>

theorem locate_peer_unknown_src_no_reply:
  "map_of (req_kwargs (new_request ''locate_peer'' [(''name'', PStr ''alpha'')]
              (Some \<lparr>addr = ''10.0.0.9'', port = 7000\<rparr>) None (Some ''abs1'') None)) ''name''
     = Some (PStr (own_name example_node))
   \<and> tcp_task_msg example_env example_node
       (Some (new_request ''locate_peer'' [(''name'', PStr ''alpha'')]
                (Some \<lparr>addr = ''10.0.0.9'', port = 7000\<rparr>) None (Some ''abs1'') None))
     = (example_node, [], Continue)"
  by (simp add: tcp_task_msg_def validated_def dispatch_def do_locate_peer_def reply_to_def
      kw_item_def new_request_def example_node_def)

text \<open>
  C8, amended.  For a \<^verbatim>\<open>locate_peer\<close> request that reaches its handler (its code
  and destination pass, its \<^verbatim>\<open>src\<close> is not this scheduler): the value of the reply is
  the own location when the name asked for is the scheduler's name, and \<^verbatim>\<open>None\<close>
  when it is not but \<^verbatim>\<open>dst\<close> is the own location; in both cases the reply is
  written to the inbound connection when the request has no \<^verbatim>\<open>src\<close>, sent over a
  new connection to \<^verbatim>\<open>src\<close> (stamped with that peer's code) when \<^verbatim>\<open>src\<close> is in the
  peer table, and not sent when \<^verbatim>\<open>src\<close> is not in it.  When neither the name nor
  \<^verbatim>\<open>dst\<close> matches, nothing is sent, inline or otherwise.  The state never changes and
  the loop goes on.
\<close>

theorem locate_peer_reply:
  assumes "req_name req = ''locate_peer''"
    and "req_auth req = auth_code s"
    and "req_dst req = None \<or> req_dst req = Some (own_location s)"
    and "req_src req \<noteq> Some (own_location s)"
    and "map_of (req_kwargs req) ''name'' = Some name"
  shows "tcp_task_msg e s (Some req) =
     (s,
      (if name = PStr (own_name s) \<or> req_dst req = Some (own_location s) then
         (case req_src req of
            None \<Rightarrow> [SendMsg (if name = PStr (own_name s) then PLocation (own_location s) else PNone)]
          | Some src \<Rightarrow>
              (case map_of (peers s) (addr src, port src) of
                 None \<Rightarrow> []
               | Some p \<Rightarrow>
                   [ConnectSend src
                      (req\<lparr>req_auth := peer_auth p,
                           req_reply := (if name = PStr (own_name s) then PLocation (own_location s)
                                         else PNone)\<rparr>)]))
       else []),
      Continue)"
  using assms
  by (auto simp: tcp_task_msg_def validated_def dispatch_def do_locate_peer_def reply_to_def
      kw_item_def Let_def)

theorem locate_peer_reply_witness:
  "tcp_task_msg example_env example_node
     (Some (new_request ''locate_peer'' [(''name'', PStr ''alpha'')] None None (Some ''abs1'') None))
     = (example_node, [SendMsg (PLocation (own_location example_node))], Continue)
   \<and> tcp_task_msg example_env example_node
     (Some (new_request ''locate_peer'' [(''name'', PStr ''beta'')] None
              (Some (own_location example_node)) (Some ''abs1'') None))
     = (example_node, [SendMsg PNone], Continue)
   \<and> tcp_task_msg example_env example_node
     (Some (new_request ''locate_peer'' [(''name'', PStr ''beta'')] None None (Some ''abs1'') None))
     = (example_node, [], Continue)"
proof -
  let ?r = "\<lambda>n d. new_request ''locate_peer'' [(''name'', PStr n)] None d (Some ''abs1'') None"
  have h: "req_name (?r n d) = ''locate_peer''" "req_auth (?r n d) = auth_code example_node"
    "req_src (?r n d) \<noteq> Some (own_location example_node)"
    "map_of (req_kwargs (?r n d)) ''name'' = Some (PStr n)" for n d
    by (simp_all add: new_request_def example_node_def)
  have d1: "req_dst (?r n None) = None \<or> req_dst (?r n None) = Some (own_location example_node)" for n
    by (simp add: new_request_def)
  have d2: "req_dst (?r n (Some (own_location example_node))) = None
      \<or> req_dst (?r n (Some (own_location example_node))) = Some (own_location example_node)" for n
    by (simp add: new_request_def)
  have n: "own_name example_node = ''alpha''" by (simp add: example_node_def)
  from locate_peer_reply [OF h(1) h(2) d1 h(3) h(4), where e = example_env and n1 = "''alpha''"]
    locate_peer_reply [OF h(1) h(2) d2 h(3) h(4), where e = example_env and n1 = "''beta''"]
    locate_peer_reply [OF h(1) h(2) d1 h(3) h(4), where e = example_env and n1 = "''beta''"]
  show ?thesis by (simp add: n new_request_def)
qed

text \<open>
  C9.  \<^verbatim>\<open>AsynCoro.peer\<close> returns \<open>-1\<close> exactly when the name of the node does not
  resolve, and \<open>0\<close> whenever it does, whether or not the UDP send and the TCP
  connect-and-send go through: when both raise, nothing at all was sent and the result
  is still \<open>0\<close>.
\<close>

theorem peer_result:
  "(fst (peer resolve_host udp_ok tcp_ok e s node udp_port tcp_port stream_send) = - 1)
     = (resolve_host node = None)
   \<and> (fst (peer resolve_host udp_ok tcp_ok e s node udp_port tcp_port stream_send) = 0)
     = (resolve_host node \<noteq> None)
   \<and> (resolve_host node \<noteq> None \<longrightarrow>
        fst (peer resolve_host False False e s node udp_port tcp_port stream_send) = 0
        \<and> snd (snd (peer resolve_host False False e s node udp_port tcp_port stream_send)) = [])"
  by (auto simp: peer_def Let_def split: option.splits)

theorem peer_result_witness:
  "fst (peer (\<lambda>h. if h = ''beta.example'' then Some ''10.0.0.2'' else None) False False
          example_env example_node ''beta.example'' 0 6000 False) = 0
   \<and> snd (snd (peer (\<lambda>h. if h = ''beta.example'' then Some ''10.0.0.2'' else None) False False
          example_env example_node ''beta.example'' 0 6000 False)) = []
   \<and> fst (peer (\<lambda>h. if h = ''beta.example'' then Some ''10.0.0.2'' else None) True True
          example_env example_node ''nowhere'' 0 6000 False) = - 1"
  using peer_result [of "\<lambda>h. if h = ''beta.example'' then Some ''10.0.0.2'' else None" False False
      example_env example_node "''beta.example''" 0 6000 False]
    peer_result [of "\<lambda>h. if h = ''beta.example'' then Some ''10.0.0.2'' else None" True True
      example_env example_node "''nowhere''" 0 6000 False]
  by simp

text \<open>
  C10.  A \<^verbatim>\<open>deliver\<close> request addressed to this scheduler (no \<^verbatim>\<open>src\<close>, \<^verbatim>\<open>dst\<close>
  the own location) that names a coroutine by id and carries a message: when the
  coroutine exists the message is sent to it and the reply is the constant \<open>1\<close>,
  whatever \<^verbatim>\<open>coro.send\<close> returns; when the id is unknown the reply is \<open>-1\<close>.  The
  same request under the name \<^verbatim>\<open>send\<close> is answered with what \<^verbatim>\<open>coro.send\<close>
  returned.
\<close>

theorem deliver_to_coro:
  assumes "req_name req = ''deliver''" and "req_auth req = auth_code s"
    and "req_src req = None" and "req_dst req = Some (own_location s)"
    and "map_of (req_kwargs req) ''coro'' = Some (PInt cid)"
    and "map_of (req_kwargs req) ''message'' = Some m"
  shows "tcp_task_msg e s (Some req)
           = (s, if cid \<in> coros s then [CoroSend cid m, SendMsg (PInt 1)] else [SendMsg (PInt (- 1))],
              Continue)
       \<and> tcp_task_msg e s (Some (req\<lparr>req_name := ''send''\<rparr>))
           = (s, if cid \<in> coros s then [CoroSend cid m, SendMsg (coro_send e cid m)]
                 else [SendMsg (PInt (- 1))],
              Continue)"
  using assms
  by (simp add: tcp_task_msg_def validated_def dispatch_def do_deliver_def do_send_def
      kw_get_def kw_item_def replied_def)

theorem deliver_to_coro_witness:
  "tcp_task_msg (example_env\<lparr>coro_send := \<lambda>i m. PInt (- 1)\<rparr>) example_node
     (Some (new_request ''deliver'' [(''coro'', PInt 7), (''message'', PStr ''hi'')] None
              (Some (own_location example_node)) (Some ''abs1'') None))
     = (example_node, [CoroSend 7 (PStr ''hi''), SendMsg (PInt 1)], Continue)
   \<and> tcp_task_msg (example_env\<lparr>coro_send := \<lambda>i m. PInt (- 1)\<rparr>) example_node
     (Some (new_request ''send'' [(''coro'', PInt 7), (''message'', PStr ''hi'')] None
              (Some (own_location example_node)) (Some ''abs1'') None))
     = (example_node, [CoroSend 7 (PStr ''hi''), SendMsg (PInt (- 1))], Continue)
   \<and> tcp_task_msg example_env example_node
     (Some (new_request ''deliver'' [(''coro'', PInt 8), (''message'', PStr ''hi'')] None
              (Some (own_location example_node)) (Some ''abs1'') None))
     = (example_node, [SendMsg (PInt (- 1))], Continue)"
proof -
  let ?r = "\<lambda>i. new_request ''deliver'' [(''coro'', PInt i), (''message'', PStr ''hi'')] None
              (Some (own_location example_node)) (Some ''abs1'') None"
  have h: "req_name (?r i) = ''deliver''" "req_auth (?r i) = auth_code example_node"
    "req_src (?r i) = None" "req_dst (?r i) = Some (own_location example_node)"
    "map_of (req_kwargs (?r i)) ''coro'' = Some (PInt i)"
    "map_of (req_kwargs (?r i)) ''message'' = Some (PStr ''hi'')" for i
    by (simp_all add: new_request_def example_node_def)
  have c: "7 \<in> coros example_node" "8 \<notin> coros example_node"
    by (simp_all add: example_node_def)
  from deliver_to_coro [OF h, where e = "example_env\<lparr>coro_send := \<lambda>i m. PInt (- 1)\<rparr>"]
    deliver_to_coro [OF h, where e = example_env] c
  show ?thesis by (simp add: new_request_def)
qed

end
